theory Spec2Isabelle
  imports Main "HOL-Library.Word"
begin

section \<open>The XDL Python bindings (examples/embedding/python/xdl\_wrapper.py)\<close>

text \<open>
  The module drives a native library through ctypes. The model keeps the Python objects
  as records, every exception as a value of \<open>error\<close>, and everything outside the
  interpreter (the platform name, the file system, the dynamic loader, the native
  library and its state) in a \<open>world\<close> record that every operation takes and returns.
  The world also keeps a trace of the probes and native invocations made so far, so that
  "the native entry is invoked exactly once" is a statement about that trace.
\<close>

subsection \<open>Values\<close>

type_synonym byte = "8 word"

text \<open>A C double is kept as its 64-bit pattern: the wrapper never computes with it.\<close>

type_synonym double = "64 word"

text \<open>A Python \<open>str\<close> that gets encoded is a list of code points.\<close>

type_synonym pystr = "nat list"

text \<open>
  File names and the platform name are only concatenated, compared and lower-cased;
  they are kept as \<open>string\<close>.
\<close>

datatype message =
    Unsupported_platform string
  | Could_not_find_XDL_library_Tried "string list"

datatype error =
    RuntimeError message
  | XdlError string
  | OSError string
  | AttributeError string
  | TypeError
  | OverflowError
  | UnicodeEncodeError
  | OtherException string

text \<open>
  The positional arguments of \<open>call_function\<close>: Python objects, told apart by what
  ctypes can make a double of. \<open>PyFloat\<close> is a float, \<open>PyInt\<close> an int. \<open>PyHasFloat r\<close> is
  any other object with a \<open>__float__\<close> method (a \<open>Fraction\<close>, a \<open>Decimal\<close>), \<open>r\<close> being
  what calling that method gives: a double or an exception. \<open>PyHasIndex i\<close> is an object
  with only an \<open>__index__\<close> method, which returns \<open>i\<close>. \<open>PyObject\<close> is an object with
  neither (a \<open>str\<close>, \<open>None\<close>).
\<close>

datatype pyval =
    PyFloat double
  | PyInt int
  | PyHasFloat "error + double"
  | PyHasIndex int
  | PyObject

text \<open>An attribute of an instance is absent until it is first assigned.\<close>

datatype 'a attribute = Absent | Present 'a

subsection \<open>The native library\<close>

text \<open>
  What the loader returns: the three symbols, each possibly missing. A native function
  reads and updates the native state \<open>'n\<close>. Pointers are addresses, \<open>0\<close> is NULL; the
  argument array is \<open>None\<close> for a NULL pointer and otherwise the doubles it points to;
  the name is the bytes in memory, terminator included; the count is a C int.
\<close>

record 'n dll =
  sym_xdl_init :: "('n \<Rightarrow> nat \<times> 'n) option"
  sym_xdl_cleanup :: "(nat \<Rightarrow> 'n \<Rightarrow> 'n) option"
  sym_xdl_call_function ::
    "(nat \<Rightarrow> byte list \<Rightarrow> double list option \<Rightarrow> 32 word \<Rightarrow> 'n \<Rightarrow> double \<times> 'n) option"

text \<open>The library object once the signatures are declared (lines 64 to 71).\<close>

record 'n lib =
  xdl_init :: "'n \<Rightarrow> nat \<times> 'n"
  xdl_cleanup :: "nat \<Rightarrow> 'n \<Rightarrow> 'n"
  xdl_call_function ::
    "nat \<Rightarrow> byte list \<Rightarrow> double list option \<Rightarrow> 32 word \<Rightarrow> 'n \<Rightarrow> double \<times> 'n"

datatype event =
    Exists string
  | Load string
  | Init
  | Cleanup nat
  | Call nat "byte list" "double list option" "32 word"

text \<open>
  \<open>platform_system\<close> is what \<open>platform.system()\<close> returns, \<open>dirname_file\<close> is
  \<open>os.path.dirname(__file__)\<close>, \<open>os_path_join\<close> is \<open>os.path.join\<close> (it differs between
  operating systems), \<open>os_path_exists\<close> is the file system, \<open>ctypes_CDLL\<close> the dynamic
  loader, \<open>float_of_int\<close> the conversion of a Python int to a C double (\<open>None\<close> when the
  int is too large), \<open>native\<close> the state of the native engine.
\<close>

record 'n world =
  platform_system :: string
  dirname_file :: string
  os_path_join :: "string \<Rightarrow> string list \<Rightarrow> string"
  os_path_exists :: "string \<Rightarrow> bool"
  ctypes_CDLL :: "string \<Rightarrow> error + 'n dll"
  float_of_int :: "int \<Rightarrow> double option"
  native :: 'n
  trace :: "event list"

definition log :: "event \<Rightarrow> 'n world \<Rightarrow> 'n world" where
  "log e w = w\<lparr>trace := trace w @ [e]\<rparr>"

subsection \<open>Library functions of Python used by the module\<close>

text \<open>\<open>str.lower\<close> on the letters A to Z; other characters of a platform name are kept.\<close>

definition lower_char :: "char \<Rightarrow> char" where
  "lower_char c =
     (let n = (of_char c :: nat) in if 65 \<le> n \<and> n \<le> 90 then char_of (n + 32) else c)"

definition lower :: "string \<Rightarrow> string" where
  "lower s = map lower_char s"

text \<open>\<open>posixpath.join\<close>, the \<open>os.path.join\<close> of macOS and Linux.\<close>

fun posixpath_join :: "string \<Rightarrow> string list \<Rightarrow> string" where
  "posixpath_join path [] = path"
| "posixpath_join path (b # p) =
     posixpath_join
       (if b \<noteq> [] \<and> hd b = CHR ''/'' then b
        else if path = [] \<or> last path = CHR ''/'' then path @ b
        else path @ ''/'' @ b) p"

text \<open>
  \<open>str.encode('utf-8')\<close>: one to four bytes per code point; a surrogate cannot be
  encoded. A \<open>str\<close> holds no code point above U+10FFFF.
\<close>

definition utf8_char :: "nat \<Rightarrow> byte list option" where
  "utf8_char c =
     (if c < 0x80 then Some [of_nat c]
      else if c < 0x800 then Some [of_nat (0xC0 + c div 64), of_nat (0x80 + c mod 64)]
      else if 0xD800 \<le> c \<and> c \<le> 0xDFFF then None
      else if c < 0x10000 then
        Some [of_nat (0xE0 + c div 4096), of_nat (0x80 + c div 64 mod 64),
              of_nat (0x80 + c mod 64)]
      else if c < 0x110000 then
        Some [of_nat (0xF0 + c div 262144), of_nat (0x80 + c div 4096 mod 64),
              of_nat (0x80 + c div 64 mod 64), of_nat (0x80 + c mod 64)]
      else None)"

fun encode_utf8 :: "pystr \<Rightarrow> error + byte list" where
  "encode_utf8 [] = Inr []"
| "encode_utf8 (c # cs) =
     (case utf8_char c of
        None \<Rightarrow> Inl UnicodeEncodeError
      | Some bs \<Rightarrow> (case encode_utf8 cs of Inl e \<Rightarrow> Inl e | Inr rest \<Rightarrow> Inr (bs @ rest)))"

text \<open>
  UTF-8 as RFC 3629 defines it, read from the bytes: \<open>0xxxxxxx\<close> is a code point below
  U+0080; \<open>110xxxxx 10xxxxxx\<close> one from U+0080; \<open>1110xxxx 10xxxxxx 10xxxxxx\<close> one from
  U+0800 that is no surrogate; \<open>11110xxx 10xxxxxx 10xxxxxx 10xxxxxx\<close> one from U+10000
  to U+10FFFF. Any other byte sequence is not UTF-8. This is the reference that the
  bytes made by \<open>encode_utf8\<close> are compared with.
\<close>

definition continuation :: "byte \<Rightarrow> bool" where
  "continuation b = (0x80 \<le> unat b \<and> unat b < 0xC0)"

fun decode_utf8 :: "byte list \<Rightarrow> pystr option" where
  "decode_utf8 [] = Some []"
| "decode_utf8 (b0 # bs) =
     (if unat b0 < 0x80 then map_option ((#) (unat b0)) (decode_utf8 bs)
      else if 0xC0 \<le> unat b0 \<and> unat b0 < 0xE0 then
        (case bs of
           b1 # bs1 \<Rightarrow>
             (let c = (unat b0 - 0xC0) * 64 + (unat b1 - 0x80) in
              if continuation b1 \<and> 0x80 \<le> c
              then map_option ((#) c) (decode_utf8 bs1) else None)
         | _ \<Rightarrow> None)
      else if 0xE0 \<le> unat b0 \<and> unat b0 < 0xF0 then
        (case bs of
           b1 # b2 # bs2 \<Rightarrow>
             (let c = (unat b0 - 0xE0) * 4096 + (unat b1 - 0x80) * 64 + (unat b2 - 0x80) in
              if continuation b1 \<and> continuation b2 \<and> 0x800 \<le> c
                 \<and> (c < 0xD800 \<or> 0xDFFF < c)
              then map_option ((#) c) (decode_utf8 bs2) else None)
         | _ \<Rightarrow> None)
      else if 0xF0 \<le> unat b0 \<and> unat b0 < 0xF8 then
        (case bs of
           b1 # b2 # b3 # bs3 \<Rightarrow>
             (let c = (unat b0 - 0xF0) * 262144 + (unat b1 - 0x80) * 4096
                      + (unat b2 - 0x80) * 64 + (unat b3 - 0x80) in
              if continuation b1 \<and> continuation b2 \<and> continuation b3
                 \<and> 0x10000 \<le> c \<and> c < 0x110000
              then map_option ((#) c) (decode_utf8 bs3) else None)
         | _ \<Rightarrow> None)
      else None)"

text \<open>A \<open>str\<close> without a lone surrogate: every code point is a Unicode scalar value.\<close>

definition scalar_value :: "nat \<Rightarrow> bool" where
  "scalar_value c = (c < 0x110000 \<and> (c < 0xD800 \<or> 0xDFFF < c))"

text \<open>A string literal of the source as a \<open>str\<close>.\<close>

definition str :: "string \<Rightarrow> pystr" where
  "str s = map of_char s"

subsection \<open>ctypes conversions declared by the module\<close>

text \<open>\<open>restype = c_void_p\<close>: a NULL result is \<open>None\<close>, any other an int.\<close>

definition c_void_p_result :: "nat \<Rightarrow> nat option" where
  "c_void_p_result p = (if p = 0 then None else Some p)"

text \<open>\<open>c_void_p\<close> in \<open>argtypes\<close>: \<open>None\<close> is passed as NULL.\<close>

definition c_void_p_param :: "nat option \<Rightarrow> nat" where
  "c_void_p_param v = (case v of None \<Rightarrow> 0 | Some p \<Rightarrow> p)"

text \<open>\<open>c_char_p\<close>: the pointer to the bytes object's buffer, which ends with a zero byte.\<close>

definition c_char_p_param :: "byte list \<Rightarrow> byte list" where
  "c_char_p_param bs = bs @ [0]"

text \<open>\<open>c_int\<close>: no overflow check, the value is cut to 32 bits.\<close>

definition c_int_param :: "nat \<Rightarrow> 32 word" where
  "c_int_param n = of_nat n"

text \<open>
  Storing one Python object into a \<open>c_double\<close>: ctypes takes the double of a float,
  converts an int, calls \<open>__float__\<close> where there is one, converts the \<open>__index__\<close>
  otherwise, and raises \<open>TypeError\<close> for every other object.
\<close>

definition c_double :: "'n world \<Rightarrow> pyval \<Rightarrow> error + double" where
  "c_double w v =
     (case v of
        PyFloat d \<Rightarrow> Inr d
      | PyInt i \<Rightarrow> (case float_of_int w i of None \<Rightarrow> Inl OverflowError | Some d \<Rightarrow> Inr d)
      | PyHasFloat r \<Rightarrow> r
      | PyHasIndex i \<Rightarrow>
          (case float_of_int w i of None \<Rightarrow> Inl OverflowError | Some d \<Rightarrow> Inr d)
      | PyObject \<Rightarrow> Inl TypeError)"

text \<open>\<open>(ctypes.c_double * len(args))(*args)\<close>: the elements are stored in order.\<close>

fun c_double_array :: "'n world \<Rightarrow> pyval list \<Rightarrow> error + double list" where
  "c_double_array w [] = Inr []"
| "c_double_array w (v # vs) =
     (case c_double w v of
        Inl e \<Rightarrow> Inl e
      | Inr d \<Rightarrow> (case c_double_array w vs of Inl e \<Rightarrow> Inl e | Inr ds \<Rightarrow> Inr (d # ds)))"

subsection \<open>\<open>XdlContext._load_library\<close>\<close>

text \<open>Lines 38 to 45: the name of the library file, \<open>None\<close> where the source raises.\<close>

definition lib_name_of :: "string \<Rightarrow> string option" where
  "lib_name_of system =
     (if system = ''darwin'' then Some ''libxdl_ffi.dylib''
      else if system = ''linux'' then Some ''libxdl_ffi.so''
      else if system = ''windows'' then Some ''xdl_ffi.dll''
      else None)"

text \<open>Lines 48 to 53.\<close>

definition possible_paths :: "'n world \<Rightarrow> string \<Rightarrow> string list" where
  "possible_paths w lib_name =
     [os_path_join w (dirname_file w) [''..'', ''..'', ''..'', ''target'', ''debug'', lib_name],
      os_path_join w (dirname_file w) [''..'', ''..'', ''..'', ''target'', ''release'', lib_name],
      ''./'' @ lib_name,
      lib_name]"

text \<open>
  Lines 55 to 60, the \<open>for\<close> loop with its \<open>break\<close>: the first path that exists, \<open>None\<close>
  when the loop runs to its \<open>else\<close>. Every call of \<open>os.path.exists\<close> is traced.
\<close>

fun find_path :: "string list \<Rightarrow> 'n world \<Rightarrow> string option \<times> 'n world" where
  "find_path [] w = (None, w)"
| "find_path (path # paths) w =
     (if os_path_exists w path then (Some path, log (Exists path) w)
      else find_path paths (log (Exists path) w))"

text \<open>
  Lines 65 to 71: each assignment looks the symbol up, which raises \<open>AttributeError\<close>
  when the library does not export it.
\<close>

definition define_signatures :: "'n dll \<Rightarrow> error + 'n lib" where
  "define_signatures d =
     (case sym_xdl_init d of
        None \<Rightarrow> Inl (AttributeError ''xdl_init'')
      | Some i \<Rightarrow>
          (case sym_xdl_cleanup d of
             None \<Rightarrow> Inl (AttributeError ''xdl_cleanup'')
           | Some c \<Rightarrow>
               (case sym_xdl_call_function d of
                  None \<Rightarrow> Inl (AttributeError ''xdl_call_function'')
                | Some f \<Rightarrow>
                    Inr \<lparr>xdl_init = i, xdl_cleanup = c, xdl_call_function = f\<rparr>)))"

text \<open>Lines 62 to 73, from \<open>ctypes.CDLL(lib_path)\<close> to \<open>return lib\<close>.\<close>

definition open_library :: "string \<Rightarrow> 'n world \<Rightarrow> (error + 'n lib) \<times> 'n world" where
  "open_library lib_path w =
     (case ctypes_CDLL w lib_path of
        Inl e \<Rightarrow> (Inl e, log (Load lib_path) w)
      | Inr d \<Rightarrow> (define_signatures d, log (Load lib_path) w))"

definition load_library :: "string option \<Rightarrow> 'n world \<Rightarrow> (error + 'n lib) \<times> 'n world" where
  "load_library lib_path w =
     (case lib_path of
        Some p \<Rightarrow> open_library p w
      | None \<Rightarrow>
          (let system = lower (platform_system w) in
           case lib_name_of system of
             None \<Rightarrow> (Inl (RuntimeError (Unsupported_platform system)), w)
           | Some lib_name \<Rightarrow>
               (case find_path (possible_paths w lib_name) w of
                  (None, w') \<Rightarrow>
                    (Inl (RuntimeError
                           (Could_not_find_XDL_library_Tried (possible_paths w lib_name))), w')
                | (Some p, w') \<Rightarrow> open_library p w')))"

subsection \<open>\<open>XdlContext\<close>\<close>

text \<open>The instance: \<open>self.lib\<close> and \<open>self._context\<close>.\<close>

record 'n XdlContext =
  self_lib :: "'n lib attribute"
  self_context :: "nat option attribute"

text \<open>
  Every method returns the exception it raised (if any), the instance and the world.
  Lines 75 to 79.
\<close>

definition initialize ::
  "'n XdlContext \<Rightarrow> 'n world \<Rightarrow> error option \<times> 'n XdlContext \<times> 'n world" where
  "initialize self w =
     (case self_lib self of
        Absent \<Rightarrow> (Some (AttributeError ''lib''), self, w)
      | Present l \<Rightarrow>
          (let r = xdl_init l (native w);
               w' = log Init (w\<lparr>native := snd r\<rparr>);
               self' = self\<lparr>self_context := Present (c_void_p_result (fst r))\<rparr>
           in if c_void_p_result (fst r) = None
              then (Some (XdlError ''Failed to initialize XDL context''), self', w')
              else (None, self', w')))"

text \<open>Lines 23 to 31, \<open>__init__\<close>, on a fresh instance.\<close>

definition init ::
  "string option \<Rightarrow> 'n world \<Rightarrow> error option \<times> 'n XdlContext \<times> 'n world" where
  "init lib_path w =
     (case load_library lib_path w of
        (Inl e, w') \<Rightarrow> (Some e, \<lparr>self_lib = Absent, self_context = Absent\<rparr>, w')
      | (Inr l, w') \<Rightarrow> initialize \<lparr>self_lib = Present l, self_context = Present None\<rparr> w')"

text \<open>Lines 81 to 84, \<open>__del__\<close>.\<close>

definition del ::
  "'n XdlContext \<Rightarrow> 'n world \<Rightarrow> error option \<times> 'n XdlContext \<times> 'n world" where
  "del self w =
     (case self_context self of
        Present (Some h) \<Rightarrow>
          (case self_lib self of
             Absent \<Rightarrow> (Some (AttributeError ''lib''), self, w)
           | Present l \<Rightarrow>
               (None, self,
                log (Cleanup (c_void_p_param (Some h)))
                  (w\<lparr>native := xdl_cleanup l (c_void_p_param (Some h)) (native w)\<rparr>)))
      | _ \<Rightarrow> (None, self, w))"

text \<open>\<open>float(result)\<close> of a float is that float.\<close>

definition py_float :: "double \<Rightarrow> double" where
  "py_float d = d"

text \<open>Lines 96 to 101: the pair \<open>(c_args, nargs)\<close>.\<close>

definition marshal_args :: "'n world \<Rightarrow> pyval list \<Rightarrow> error + (double list option \<times> nat)" where
  "marshal_args w args =
     (if args = [] then Inr (None, 0)
      else (case c_double_array w args of
              Inl e \<Rightarrow> Inl e
            | Inr ds \<Rightarrow> Inr (Some ds, length args)))"

text \<open>Lines 86 to 109.\<close>

definition call_function ::
  "'n XdlContext \<Rightarrow> pystr \<Rightarrow> pyval list \<Rightarrow> 'n world \<Rightarrow>
     (error + double) \<times> 'n XdlContext \<times> 'n world" where
  "call_function self name args w =
     (case marshal_args w args of
        Inl e \<Rightarrow> (Inl e, self, w)
      | Inr (c_args, nargs) \<Rightarrow>
          (case encode_utf8 name of
             Inl e \<Rightarrow> (Inl e, self, w)
           | Inr name_bytes \<Rightarrow>
               (case self_lib self of
                  Absent \<Rightarrow> (Inl (AttributeError ''lib''), self, w)
                | Present l \<Rightarrow>
                    (case self_context self of
                       Absent \<Rightarrow> (Inl (AttributeError ''_context''), self, w)
                     | Present h \<Rightarrow>
                         (let r = xdl_call_function l (c_void_p_param h)
                                    (c_char_p_param name_bytes) c_args (c_int_param nargs)
                                    (native w)
                          in (Inr (py_float (fst r)), self,
                              log (Call (c_void_p_param h) (c_char_p_param name_bytes)
                                     c_args (c_int_param nargs))
                                (w\<lparr>native := snd r\<rparr>)))))))"

subsection \<open>Convenience functions\<close>

text \<open>
  Each function creates its own instance in the local \<open>ctx\<close>. When the function
  returns or raises, the instance has no reference left and the interpreter runs
  \<open>__del__\<close> on it, ignoring an exception it raises.
\<close>

definition scope_exit :: "'n XdlContext \<Rightarrow> 'n world \<Rightarrow> 'n world" where
  "scope_exit ctx w = snd (snd (del ctx w))"

definition xdl_sin :: "pyval \<Rightarrow> 'n world \<Rightarrow> (error + double) \<times> 'n world" where
  "xdl_sin x w =
     (case init None w of
        (Some e, ctx, w') \<Rightarrow> (Inl e, scope_exit ctx w')
      | (None, ctx, w') \<Rightarrow>
          (case call_function ctx (str ''sin'') [x] w' of
             (r, ctx', w'') \<Rightarrow> (r, scope_exit ctx' w'')))"

definition xdl_cos :: "pyval \<Rightarrow> 'n world \<Rightarrow> (error + double) \<times> 'n world" where
  "xdl_cos x w =
     (case init None w of
        (Some e, ctx, w') \<Rightarrow> (Inl e, scope_exit ctx w')
      | (None, ctx, w') \<Rightarrow>
          (case call_function ctx (str ''cos'') [x] w' of
             (r, ctx', w'') \<Rightarrow> (r, scope_exit ctx' w'')))"

definition xdl_sqrt :: "pyval \<Rightarrow> 'n world \<Rightarrow> (error + double) \<times> 'n world" where
  "xdl_sqrt x w =
     (case init None w of
        (Some e, ctx, w') \<Rightarrow> (Inl e, scope_exit ctx w')
      | (None, ctx, w') \<Rightarrow>
          (case call_function ctx (str ''sqrt'') [x] w' of
             (r, ctx', w'') \<Rightarrow> (r, scope_exit ctx' w'')))"

subsection \<open>Reading the trace\<close>

text \<open>The invocations of the three native entries, without the probes and loads.\<close>

fun is_native :: "event \<Rightarrow> bool" where
  "is_native Init = True"
| "is_native (Cleanup h) = True"
| "is_native (Call h name c_args nargs) = True"
| "is_native (Exists path) = False"
| "is_native (Load path) = False"

definition native_events :: "event list \<Rightarrow> event list" where
  "native_events t = filter is_native t"

fun is_cleanup :: "event \<Rightarrow> bool" where
  "is_cleanup (Cleanup h) = True"
| "is_cleanup e = False"

fun is_call :: "event \<Rightarrow> bool" where
  "is_call (Call h name c_args nargs) = True"
| "is_call e = False"

text \<open>\<open>__del__\<close> invoked \<open>k\<close> times in a row on the same instance.\<close>

fun del_times :: "nat \<Rightarrow> 'n XdlContext \<Rightarrow> 'n world \<Rightarrow> 'n XdlContext \<times> 'n world" where
  "del_times 0 self w = (self, w)"
| "del_times (Suc k) self w = del_times k (fst (snd (del self w))) (snd (snd (del self w)))"

subsection \<open>A native stub and worlds to run the module in\<close>

text \<open>
  The stub's state counts the calls of \<open>xdl_call_function\<close>; its \<open>xdl_init\<close> hands out
  the address 4096 and every call returns the double 1.0.
\<close>

definition stub_dll :: "nat dll" where
  "stub_dll =
     \<lparr>sym_xdl_init = Some (\<lambda>n. (4096, n)),
      sym_xdl_cleanup = Some (\<lambda>h n. n),
      sym_xdl_call_function = Some (\<lambda>h name c_args nargs n. (0x3FF0000000000000, Suc n))\<rparr>"

definition stub_lib :: "nat lib" where
  "stub_lib =
     \<lparr>xdl_init = (\<lambda>n. (4096, n)),
      xdl_cleanup = (\<lambda>h n. n),
      xdl_call_function = (\<lambda>h name c_args nargs n. (0x3FF0000000000000, Suc n))\<rparr>"

text \<open>A library whose \<open>xdl_init\<close> returns NULL.\<close>

definition null_dll :: "nat dll" where
  "null_dll = stub_dll\<lparr>sym_xdl_init := Some (\<lambda>n. (0, n))\<rparr>"

definition null_lib :: "nat lib" where
  "null_lib = stub_lib\<lparr>xdl_init := (\<lambda>n. (0, n))\<rparr>"

text \<open>
  A Linux machine where only the release build exists. The ints 0 and 16 are the ones
  the module's demo passes; their doubles are 0.0 and 16.0.
\<close>

definition stub_world :: "nat world" where
  "stub_world =
     \<lparr>platform_system = ''Linux'',
      dirname_file = ''/xdl/py'',
      os_path_join = posixpath_join,
      os_path_exists = (\<lambda>p. p = ''/xdl/py/../../../target/release/libxdl_ffi.so''),
      ctypes_CDLL = (\<lambda>p. Inr stub_dll),
      float_of_int =
        (\<lambda>i. if i = 0 then Some 0 else if i = 16 then Some 0x4030000000000000 else None),
      native = 0,
      trace = []\<rparr>"

definition null_world :: "nat world" where
  "null_world = stub_world\<lparr>ctypes_CDLL := (\<lambda>p. Inr null_dll)\<rparr>"


definition bsd_world :: "nat world" where
  "bsd_world = stub_world\<lparr>platform_system := ''FreeBSD''\<rparr>"

subsection \<open>Runs of the module in those worlds\<close>

text \<open>The instance a successful construction leaves in the stub world, and the one a
  failed initialisation leaves.\<close>

definition stub_ctx :: "nat XdlContext" where
  "stub_ctx = \<lparr>self_lib = Present stub_lib, self_context = Present (Some 4096)\<rparr>"

definition null_ctx :: "nat XdlContext" where
  "null_ctx = \<lparr>self_lib = Present null_lib, self_context = Present None\<rparr>"

text \<open>\<open>ctx = XdlContext()\<close>, then \<open>ctx.__del__()\<close> once and twice.\<close>

definition active_run :: "error option \<times> nat XdlContext \<times> nat world" where
  "active_run = init None stub_world"

definition destroyed_run :: "error option \<times> nat XdlContext \<times> nat world" where
  "destroyed_run = del (fst (snd active_run)) (snd (snd active_run))"

definition destroyed_twice_run :: "error option \<times> nat XdlContext \<times> nat world" where
  "destroyed_twice_run = del (fst (snd destroyed_run)) (snd (snd destroyed_run))"

text \<open>\<open>ctx.call_function("sin", 0.0)\<close> after \<open>ctx.__del__()\<close>.\<close>

definition call_after_destroy :: "(error + double) \<times> nat XdlContext \<times> nat world" where
  "call_after_destroy =
     call_function (fst (snd destroyed_run)) (str ''sin'') [PyFloat 0] (snd (snd destroyed_run))"

text \<open>The same call on the instance of a construction whose \<open>xdl_init\<close> returned NULL.\<close>

definition failed_run :: "error option \<times> nat XdlContext \<times> nat world" where
  "failed_run = init None null_world"

definition call_after_failure :: "(error + double) \<times> nat XdlContext \<times> nat world" where
  "call_after_failure =
     call_function (fst (snd failed_run)) (str ''sin'') [PyFloat 0] (snd (snd failed_run))"

section \<open>Properties\<close>

subsection \<open>What the operations leave alone\<close>

lemma log_fields [simp]:
  "trace (log e w) = trace w @ [e]"
  "native (log e w) = native w"
  "platform_system (log e w) = platform_system w"
  "dirname_file (log e w) = dirname_file w"
  "os_path_join (log e w) = os_path_join w"
  "os_path_exists (log e w) = os_path_exists w"
  "ctypes_CDLL (log e w) = ctypes_CDLL w"
  "float_of_int (log e w) = float_of_int w"
  by (simp_all add: log_def)

lemma c_double_cong:
  "float_of_int w' = float_of_int w \<Longrightarrow> c_double w' v = c_double w v"
  by (simp add: c_double_def split: pyval.splits)

lemma c_double_array_cong:
  "float_of_int w' = float_of_int w \<Longrightarrow> c_double_array w' vs = c_double_array w vs"
proof (induction vs)
  case Nil
  show ?case by simp
next
  case (Cons v vs)
  then show ?case using c_double_cong [of w' w v] by (simp split: sum.splits)
qed

lemma marshal_args_cong:
  "float_of_int w' = float_of_int w \<Longrightarrow> marshal_args w' vs = marshal_args w vs"
  using c_double_array_cong [of w' w vs] by (simp add: marshal_args_def)

lemma c_double_array_length:
  "c_double_array w vs = Inr ds \<Longrightarrow> length ds = length vs"
  by (induction vs arbitrary: ds) (auto split: sum.splits)

lemma c_double_array_nth:
  "c_double_array w vs = Inr ds \<Longrightarrow> i < length vs \<Longrightarrow> c_double w (vs ! i) = Inr (ds ! i)"
proof (induction vs arbitrary: ds i)
  case Nil
  then show ?case by simp
next
  case (Cons v vs)
  then show ?case
    by (cases i) (auto split: sum.splits)
qed

lemma c_double_array_floats: "c_double_array w (map PyFloat ds) = Inr ds"
  by (induction ds) (simp_all add: c_double_def)

lemma find_path_eq:
  "find_path ps w =
     (find (os_path_exists w) ps,
      w\<lparr>trace := trace w @
           map Exists (take (Suc (length (takeWhile (\<lambda>p. \<not> os_path_exists w p) ps))) ps)\<rparr>)"
proof (induction ps arbitrary: w)
  case Nil
  then show ?case by simp
next
  case (Cons p ps)
  then show ?case by (simp add: log_def)
qed

subsection \<open>The search for the library file\<close>



subsection \<open>Running the stub worlds\<close>

lemma lower_FreeBSD: "lower ''FreeBSD'' = ''freebsd''"
  by code_simp

lemma lower_Linux: "lower ''Linux'' = ''linux''"
  by code_simp

lemma stub_lib_name: "lib_name_of (lower (platform_system stub_world)) = Some ''libxdl_ffi.so''"
  by (simp add: stub_world_def lower_Linux lib_name_of_def)

lemma stub_paths:
  "possible_paths stub_world ''libxdl_ffi.so'' =
     [''/xdl/py/../../../target/debug/libxdl_ffi.so'',
      ''/xdl/py/../../../target/release/libxdl_ffi.so'',
      ''./libxdl_ffi.so'',
      ''libxdl_ffi.so'']"
  by (simp add: possible_paths_def stub_world_def)



lemma stub_open:
  "open_library p (stub_world\<lparr>trace := t\<rparr>) = (Inr stub_lib, stub_world\<lparr>trace := t @ [Load p]\<rparr>)"
  by (simp add: open_library_def stub_world_def define_signatures_def stub_dll_def stub_lib_def
      log_def)

subsection \<open>The methods, case by case\<close>

lemma del_keeps_self: "fst (snd (del self w)) = self"
  by (simp add: del_def split: attribute.splits option.splits)

lemma call_function_keeps_self: "fst (snd (call_function self name args w)) = self"
  by (simp add: call_function_def Let_def split: sum.splits prod.splits attribute.splits)

lemma del_without_handle:
  "self_context self = Present None \<Longrightarrow> del self w = (None, self, w)"
  by (simp add: del_def)

lemma del_with_handle:
  "self_lib self = Present l \<Longrightarrow> self_context self = Present (Some p) \<Longrightarrow>
   del self w = (None, self, log (Cleanup p) (w\<lparr>native := xdl_cleanup l p (native w)\<rparr>))"
  by (simp add: del_def c_void_p_param_def)

lemma init_loaded:
  "load_library lib_path w = (Inr l, w') \<Longrightarrow>
   init lib_path w = initialize \<lparr>self_lib = Present l, self_context = Present None\<rparr> w'"
  by (simp add: init_def)

lemma initialize_null:
  "self_lib self = Present l \<Longrightarrow> fst (xdl_init l (native w)) = 0 \<Longrightarrow>
   initialize self w =
     (Some (XdlError ''Failed to initialize XDL context''),
      self\<lparr>self_context := Present None\<rparr>,
      log Init (w\<lparr>native := snd (xdl_init l (native w))\<rparr>))"
  by (simp add: initialize_def Let_def c_void_p_result_def)

lemma initialize_handle:
  "self_lib self = Present l \<Longrightarrow> xdl_init l (native w) = (p, n) \<Longrightarrow> p \<noteq> 0 \<Longrightarrow>
   initialize self w =
     (None, self\<lparr>self_context := Present (Some p)\<rparr>, log Init (w\<lparr>native := n\<rparr>))"
  by (simp add: initialize_def Let_def c_void_p_result_def)

subsection \<open>Running the constructor in the stub worlds\<close>

lemma stub_load:
  "load_library None stub_world =
     (Inr stub_lib,
      stub_world\<lparr>trace :=
        [Exists ''/xdl/py/../../../target/debug/libxdl_ffi.so'',
         Exists ''/xdl/py/../../../target/release/libxdl_ffi.so'',
         Load ''/xdl/py/../../../target/release/libxdl_ffi.so'']\<rparr>)"
proof -
  have ex: "os_path_exists stub_world p = (p = ''/xdl/py/../../../target/release/libxdl_ffi.so'')" for p
    by (simp add: stub_world_def)
  have t0: "trace stub_world = []"
    by (simp add: stub_world_def)
  have "find_path (possible_paths stub_world ''libxdl_ffi.so'') stub_world =
      (Some ''/xdl/py/../../../target/release/libxdl_ffi.so'',
       stub_world\<lparr>trace :=
        [Exists ''/xdl/py/../../../target/debug/libxdl_ffi.so'',
         Exists ''/xdl/py/../../../target/release/libxdl_ffi.so'']\<rparr>)"
    by (simp add: stub_paths ex t0 log_def)
  then show ?thesis
    by (simp add: load_library_def stub_lib_name stub_open)
qed

lemma null_load:
  "load_library None null_world =
     (Inr null_lib,
      null_world\<lparr>trace :=
        [Exists ''/xdl/py/../../../target/debug/libxdl_ffi.so'',
         Exists ''/xdl/py/../../../target/release/libxdl_ffi.so'',
         Load ''/xdl/py/../../../target/release/libxdl_ffi.so'']\<rparr>)"
proof -
  have ex: "os_path_exists null_world p = (p = ''/xdl/py/../../../target/release/libxdl_ffi.so'')" for p
    by (simp add: null_world_def stub_world_def)
  have t0: "trace null_world = []"
    by (simp add: null_world_def stub_world_def)
  have nm: "lib_name_of (lower (platform_system null_world)) = Some ''libxdl_ffi.so''"
    by (simp add: null_world_def stub_world_def lower_Linux lib_name_of_def)
  have ps: "possible_paths null_world ''libxdl_ffi.so'' =
     [''/xdl/py/../../../target/debug/libxdl_ffi.so'',
      ''/xdl/py/../../../target/release/libxdl_ffi.so'',
      ''./libxdl_ffi.so'',
      ''libxdl_ffi.so'']"
    by (simp add: possible_paths_def null_world_def stub_world_def)
  have op: "open_library p (null_world\<lparr>trace := t\<rparr>) =
      (Inr null_lib, null_world\<lparr>trace := t @ [Load p]\<rparr>)" for p t
    by (simp add: open_library_def null_world_def stub_world_def define_signatures_def
        null_dll_def null_lib_def stub_dll_def stub_lib_def log_def)
  have "find_path (possible_paths null_world ''libxdl_ffi.so'') null_world =
      (Some ''/xdl/py/../../../target/release/libxdl_ffi.so'',
       null_world\<lparr>trace :=
        [Exists ''/xdl/py/../../../target/debug/libxdl_ffi.so'',
         Exists ''/xdl/py/../../../target/release/libxdl_ffi.so'']\<rparr>)"
    by (simp add: ps ex t0 log_def)
  then show ?thesis
    by (simp add: load_library_def nm op)
qed

lemma null_init_zero: "fst (xdl_init null_lib n) = 0"
  by (simp add: null_lib_def stub_lib_def)

subsection \<open>One call, and the runs in the stub worlds\<close>

lemma call_function_native:
  assumes "self_lib self = Present l" and "self_context self = Present h"
    and "marshal_args w args = Inr (c_args, nargs)" and "encode_utf8 name = Inr name_bytes"
  shows "call_function self name args w =
     (Inr (fst (xdl_call_function l (c_void_p_param h) (c_char_p_param name_bytes) c_args
                  (c_int_param nargs) (native w))),
      self,
      log (Call (c_void_p_param h) (c_char_p_param name_bytes) c_args (c_int_param nargs))
        (w\<lparr>native := snd (xdl_call_function l (c_void_p_param h) (c_char_p_param name_bytes)
                             c_args (c_int_param nargs) (native w))\<rparr>))"
  using assms by (simp add: call_function_def Let_def py_float_def)

lemma call_function_raises:
  "marshal_args w args = Inl e \<Longrightarrow> call_function self name args w = (Inl e, self, w)"
  "marshal_args w args = Inr m \<Longrightarrow> encode_utf8 name = Inl e \<Longrightarrow>
     call_function self name args w = (Inl e, self, w)"
  by (simp_all add: call_function_def split: prod.splits)

lemma call_function_trace:
  "trace (snd (snd (call_function self name args w))) = trace w
   \<or> (\<exists>h name_bytes c_args nargs.
        trace (snd (snd (call_function self name args w))) =
          trace w @ [Call h name_bytes c_args nargs])"
  by (auto simp: call_function_def Let_def split: sum.splits prod.splits attribute.splits)

lemma encode_sin: "encode_utf8 (str ''sin'') = Inr [115, 105, 110]"
  by (simp add: str_def utf8_char_def)

lemma encode_cos: "encode_utf8 (str ''cos'') = Inr [99, 111, 115]"
  by (simp add: str_def utf8_char_def)

lemma encode_sqrt: "encode_utf8 (str ''sqrt'') = Inr [115, 113, 114, 116]"
  by (simp add: str_def utf8_char_def)

lemma encode_utf8_ascii:
  "\<forall>c \<in> set name. c < 128 \<Longrightarrow> encode_utf8 name = Inr (map of_nat name)"
  by (induction name) (simp_all add: utf8_char_def)

lemma encode_utf8_example:
  "encode_utf8 [0xE9, 0x20AC, 0x1F600] = Inr [0xC3, 0xA9, 0xE2, 0x82, 0xAC, 0xF0, 0x9F, 0x98, 0x80]"
  by (simp add: utf8_char_def)

lemma encode_utf8_surrogate: "encode_utf8 [0x73, 0xD800] = Inl UnicodeEncodeError"
  by (simp add: utf8_char_def)

lemma marshal_one:
  "c_double w x = Inr d \<Longrightarrow> marshal_args w [x] = Inr (Some [d], 1)"
  by (simp add: marshal_args_def)

lemma stub_native: "native stub_world = 0" "native null_world = 0"
  by (simp_all add: stub_world_def null_world_def)

lemma stub_init:
  "init None stub_world =
     (None, stub_ctx,
      stub_world\<lparr>trace :=
        [Exists ''/xdl/py/../../../target/debug/libxdl_ffi.so'',
         Exists ''/xdl/py/../../../target/release/libxdl_ffi.so'',
         Load ''/xdl/py/../../../target/release/libxdl_ffi.so'',
         Init]\<rparr>)"
proof -
  let ?w = "stub_world\<lparr>trace :=
        [Exists ''/xdl/py/../../../target/debug/libxdl_ffi.so'',
         Exists ''/xdl/py/../../../target/release/libxdl_ffi.so'',
         Load ''/xdl/py/../../../target/release/libxdl_ffi.so'']\<rparr>"
  let ?self = "\<lparr>self_lib = Present stub_lib, self_context = Present None\<rparr>"
  have i: "xdl_init stub_lib (native ?w) = (4096, 0)"
    by (simp add: stub_lib_def stub_native)
  have "init None stub_world = initialize ?self ?w"
    by (rule init_loaded [OF stub_load])
  also have "\<dots> = (None, ?self\<lparr>self_context := Present (Some 4096)\<rparr>,
      log Init (?w\<lparr>native := 0\<rparr>))"
    by (rule initialize_handle [OF _ i]) simp_all
  also have "log Init (?w\<lparr>native := 0\<rparr>) = ?w\<lparr>trace := trace ?w @ [Init]\<rparr>"
    by (simp add: log_def stub_world_def)
  finally show ?thesis
    by (simp add: stub_ctx_def)
qed

lemma null_init:
  "init None null_world =
     (Some (XdlError ''Failed to initialize XDL context''), null_ctx,
      null_world\<lparr>trace :=
        [Exists ''/xdl/py/../../../target/debug/libxdl_ffi.so'',
         Exists ''/xdl/py/../../../target/release/libxdl_ffi.so'',
         Load ''/xdl/py/../../../target/release/libxdl_ffi.so'',
         Init]\<rparr>)"
proof -
  let ?w = "null_world\<lparr>trace :=
        [Exists ''/xdl/py/../../../target/debug/libxdl_ffi.so'',
         Exists ''/xdl/py/../../../target/release/libxdl_ffi.so'',
         Load ''/xdl/py/../../../target/release/libxdl_ffi.so'']\<rparr>"
  let ?self = "\<lparr>self_lib = Present null_lib, self_context = Present None\<rparr>"
  have i: "xdl_init null_lib n = (0, n)" for n
    by (simp add: null_lib_def stub_lib_def)
  have "init None null_world = initialize ?self ?w"
    by (rule init_loaded [OF null_load])
  also have "\<dots> = (Some (XdlError ''Failed to initialize XDL context''),
      ?self\<lparr>self_context := Present None\<rparr>,
      log Init (?w\<lparr>native := snd (xdl_init null_lib (native ?w))\<rparr>))"
    by (rule initialize_null) (simp_all add: i)
  also have "log Init (?w\<lparr>native := snd (xdl_init null_lib (native ?w))\<rparr>) =
      ?w\<lparr>trace := trace ?w @ [Init]\<rparr>"
    by (simp add: log_def i null_world_def stub_world_def)
  finally show ?thesis
    by (simp add: null_ctx_def)
qed

lemma del_fields:
  "float_of_int (snd (snd (del self w))) = float_of_int w"
  by (simp add: del_def split: attribute.splits option.splits)

lemma del_times_with_handle:
  assumes "self_lib self = Present l" and "self_context self = Present (Some p)"
  shows "fst (del_times k self w) = self
         \<and> trace (snd (del_times k self w)) = trace w @ replicate k (Cleanup p)"
proof (induction k arbitrary: w)
  case 0
  show ?case by simp
next
  case (Suc k)
  have "del self w = (None, self, log (Cleanup p) (w\<lparr>native := xdl_cleanup l p (native w)\<rparr>))"
    using assms by (rule del_with_handle)
  then show ?case
    using Suc [of "log (Cleanup p) (w\<lparr>native := xdl_cleanup l p (native w)\<rparr>)"]
    by (simp add: replicate_append_same)
qed

lemma stub_ctx_fields:
  "self_lib stub_ctx = Present stub_lib" "self_context stub_ctx = Present (Some 4096)"
  "self_lib null_ctx = Present null_lib" "self_context null_ctx = Present None"
  by (simp_all add: stub_ctx_def null_ctx_def)

lemma stub_lib_fields:
  "xdl_cleanup stub_lib h n = n"
  "xdl_call_function stub_lib h name_bytes c_args nargs n = (0x3FF0000000000000, Suc n)"
  "xdl_cleanup null_lib h n = n"
  "xdl_call_function null_lib h name_bytes c_args nargs n = (0x3FF0000000000000, Suc n)"
  by (simp_all add: stub_lib_def null_lib_def)

lemma stub_float_of_int:
  "float_of_int stub_world 16 = Some 0x4030000000000000"
  "float_of_int stub_world 0 = Some 0"
  by (simp_all add: stub_world_def)

lemma stub_trace: "trace stub_world = []" "trace null_world = []"
  by (simp_all add: stub_world_def null_world_def)

lemma c_int_small: "n < 2 ^ 31 \<Longrightarrow> sint (of_nat n :: 32 word) = int n"
proof -
  assume "n < 2 ^ 31"
  then have "int n < 2 ^ 31"
    by simp
  then have "signed_take_bit 31 (int n) = int n"
    by (intro signed_take_bit_int_eq_self) simp_all
  then show ?thesis
    by (simp add: signed_of_nat)
qed

lemma active_run_eq:
  "active_run =
     (None, stub_ctx,
      stub_world\<lparr>trace :=
        [Exists ''/xdl/py/../../../target/debug/libxdl_ffi.so'',
         Exists ''/xdl/py/../../../target/release/libxdl_ffi.so'',
         Load ''/xdl/py/../../../target/release/libxdl_ffi.so'',
         Init]\<rparr>)"
  by (simp add: active_run_def stub_init)

lemma destroyed_run_eq:
  "destroyed_run =
     (None, stub_ctx,
      stub_world\<lparr>trace :=
        [Exists ''/xdl/py/../../../target/debug/libxdl_ffi.so'',
         Exists ''/xdl/py/../../../target/release/libxdl_ffi.so'',
         Load ''/xdl/py/../../../target/release/libxdl_ffi.so'',
         Init, Cleanup 4096]\<rparr>)"
  by (simp add: destroyed_run_def active_run_eq
      del_with_handle [OF stub_ctx_fields(1) stub_ctx_fields(2)] stub_lib_fields log_def)

lemma failed_run_eq:
  "failed_run =
     (Some (XdlError ''Failed to initialize XDL context''), null_ctx,
      null_world\<lparr>trace :=
        [Exists ''/xdl/py/../../../target/debug/libxdl_ffi.so'',
         Exists ''/xdl/py/../../../target/release/libxdl_ffi.so'',
         Load ''/xdl/py/../../../target/release/libxdl_ffi.so'',
         Init]\<rparr>)"
  by (simp add: failed_run_def null_init)

lemma marshal_zero: "marshal_args w [PyFloat 0] = Inr (Some [0], 1)"
  by (simp add: marshal_one c_double_def)

lemma call_after_destroy_eq:
  "fst call_after_destroy = Inr 0x3FF0000000000000"
  "trace (snd (snd call_after_destroy)) =
       [Exists ''/xdl/py/../../../target/debug/libxdl_ffi.so'',
        Exists ''/xdl/py/../../../target/release/libxdl_ffi.so'',
        Load ''/xdl/py/../../../target/release/libxdl_ffi.so'',
        Init, Cleanup 4096, Call 4096 [115, 105, 110, 0] (Some [0]) 1]"
proof -
  let ?w = "stub_world\<lparr>trace :=
        [Exists ''/xdl/py/../../../target/debug/libxdl_ffi.so'',
         Exists ''/xdl/py/../../../target/release/libxdl_ffi.so'',
         Load ''/xdl/py/../../../target/release/libxdl_ffi.so'',
         Init, Cleanup 4096]\<rparr>"
  have c: "call_after_destroy = call_function stub_ctx (str ''sin'') [PyFloat 0] ?w"
    by (simp add: call_after_destroy_def destroyed_run_eq)
  note run = call_function_native
    [OF stub_ctx_fields(1) stub_ctx_fields(2) marshal_zero encode_sin, of ?w]
  show "fst call_after_destroy = Inr 0x3FF0000000000000"
    by (simp only: c run) (simp add: stub_lib_fields)
  show "trace (snd (snd call_after_destroy)) =
       [Exists ''/xdl/py/../../../target/debug/libxdl_ffi.so'',
        Exists ''/xdl/py/../../../target/release/libxdl_ffi.so'',
        Load ''/xdl/py/../../../target/release/libxdl_ffi.so'',
        Init, Cleanup 4096, Call 4096 [115, 105, 110, 0] (Some [0]) 1]"
    by (simp only: c run) (simp add: c_void_p_param_def c_char_p_param_def c_int_param_def)
qed

lemma call_after_failure_eq:
  "fst call_after_failure = Inr 0x3FF0000000000000"
  "trace (snd (snd call_after_failure)) =
       [Exists ''/xdl/py/../../../target/debug/libxdl_ffi.so'',
        Exists ''/xdl/py/../../../target/release/libxdl_ffi.so'',
        Load ''/xdl/py/../../../target/release/libxdl_ffi.so'',
        Init, Call 0 [115, 105, 110, 0] (Some [0]) 1]"
proof -
  let ?w = "null_world\<lparr>trace :=
        [Exists ''/xdl/py/../../../target/debug/libxdl_ffi.so'',
         Exists ''/xdl/py/../../../target/release/libxdl_ffi.so'',
         Load ''/xdl/py/../../../target/release/libxdl_ffi.so'',
         Init]\<rparr>"
  have c: "call_after_failure = call_function null_ctx (str ''sin'') [PyFloat 0] ?w"
    by (simp add: call_after_failure_def failed_run_eq)
  note run = call_function_native
    [OF stub_ctx_fields(3) stub_ctx_fields(4) marshal_zero encode_sin, of ?w]
  show "fst call_after_failure = Inr 0x3FF0000000000000"
    by (simp only: c run) (simp add: stub_lib_fields)
  show "trace (snd (snd call_after_failure)) =
       [Exists ''/xdl/py/../../../target/debug/libxdl_ffi.so'',
        Exists ''/xdl/py/../../../target/release/libxdl_ffi.so'',
        Load ''/xdl/py/../../../target/release/libxdl_ffi.so'',
        Init, Call 0 [115, 105, 110, 0] (Some [0]) 1]"
    by (simp only: c run) (simp add: c_void_p_param_def c_char_p_param_def c_int_param_def)
qed

subsection \<open>The encoding of the name is UTF-8\<close>

lemma unat_byte: "n < 256 \<Longrightarrow> unat (of_nat n :: byte) = n"
  by (simp add: unat_of_nat take_bit_nat_eq_self)

lemma decode_one_byte:
  assumes "unat b0 = c" and "c < 0x80"
  shows "decode_utf8 (b0 # rest) = map_option ((#) c) (decode_utf8 rest)"
  using assms by simp

lemma decode_two_bytes:
  assumes "unat b0 = 0xC0 + q" and "q < 32" and "unat b1 = 0x80 + r" and "r < 64"
    and "0x80 \<le> q * 64 + r"
  shows "decode_utf8 (b0 # b1 # rest) = map_option ((#) (q * 64 + r)) (decode_utf8 rest)"
  using assms by (simp add: continuation_def)

lemma decode_three_bytes:
  assumes "unat b0 = 0xE0 + p" and "p < 16" and "unat b1 = 0x80 + q" and "q < 64"
    and "unat b2 = 0x80 + r" and "r < 64"
    and "0x800 \<le> p * 4096 + q * 64 + r"
    and "p * 4096 + q * 64 + r < 0xD800 \<or> 0xDFFF < p * 4096 + q * 64 + r"
  shows "decode_utf8 (b0 # b1 # b2 # rest) =
           map_option ((#) (p * 4096 + q * 64 + r)) (decode_utf8 rest)"
  using assms by (simp add: continuation_def)

lemma decode_four_bytes:
  assumes "unat b0 = 0xF0 + o'" and "o' < 8" and "unat b1 = 0x80 + p" and "p < 64"
    and "unat b2 = 0x80 + q" and "q < 64" and "unat b3 = 0x80 + r" and "r < 64"
    and "0x10000 \<le> o' * 262144 + p * 4096 + q * 64 + r"
    and "o' * 262144 + p * 4096 + q * 64 + r < 0x110000"
  shows "decode_utf8 (b0 # b1 # b2 # b3 # rest) =
           map_option ((#) (o' * 262144 + p * 4096 + q * 64 + r)) (decode_utf8 rest)"
  using assms by (simp add: continuation_def)

lemma split2: "(a::nat) div 64 * 64 + a mod 64 = a"
  by simp

lemma split3: "c div 4096 * 4096 + c div 64 mod 64 * 64 + c mod 64 = (c::nat)"
proof -
  have "c div 4096 * 4096 = c div 64 div 64 * 64 * 64"
    by (simp add: div_mult2_eq)
  then have "c div 4096 * 4096 + c div 64 mod 64 * 64 =
      (c div 64 div 64 * 64 + c div 64 mod 64) * 64"
    by (simp only: add_mult_distrib)
  also have "\<dots> = c div 64 * 64"
    by (simp only: split2)
  finally show ?thesis
    by (simp only: split2)
qed

lemma split4:
  "c div 262144 * 262144 + c div 4096 mod 64 * 4096 + c div 64 mod 64 * 64 + c mod 64 = (c::nat)"
proof -
  have "c div 262144 * 262144 = c div 4096 div 64 * 64 * 4096"
    by (simp add: div_mult2_eq)
  then have "c div 262144 * 262144 + c div 4096 mod 64 * 4096 =
      (c div 4096 div 64 * 64 + c div 4096 mod 64) * 4096"
    by (simp only: add_mult_distrib)
  also have "\<dots> = c div 4096 * 4096"
    by (simp only: split2)
  finally show ?thesis
    by (simp only: split3)
qed

lemma ranges:
  "(c::nat) < 0x800 \<Longrightarrow> 0xC0 + c div 64 < 256"
  "(c::nat) < 0x800 \<Longrightarrow> c div 64 < 32"
  "(c::nat) < 0x10000 \<Longrightarrow> 0xE0 + c div 4096 < 256"
  "(c::nat) < 0x10000 \<Longrightarrow> c div 4096 < 16"
  "(c::nat) < 0x110000 \<Longrightarrow> 0xF0 + c div 262144 < 256"
  "(c::nat) < 0x110000 \<Longrightarrow> c div 262144 < 8"
  "0x80 + (c::nat) mod 64 < 256" "0x80 + (c::nat) div 64 mod 64 < 256"
  "0x80 + (c::nat) div 4096 mod 64 < 256"
  by simp_all

lemma decode_utf8_char:
  assumes "utf8_char c = Some cb"
  shows "decode_utf8 (cb @ rest) = map_option ((#) c) (decode_utf8 rest)"
proof -
  consider (one) "c < 0x80"
    | (two) "0x80 \<le> c" "c < 0x800"
    | (three) "0x800 \<le> c" "c < 0x10000" "c < 0xD800 \<or> 0xDFFF < c"
    | (four) "0x10000 \<le> c" "c < 0x110000"
    | (none) "0xD800 \<le> c \<and> c \<le> 0xDFFF \<or> 0x110000 \<le> c"
    by fastforce
  then show ?thesis
  proof cases
    case one
    then have cb: "cb = [of_nat c]"
      using assms by (simp add: utf8_char_def)
    have "unat (of_nat c :: byte) = c"
      using one by (intro unat_byte) simp
    then have "decode_utf8 (of_nat c # rest) = map_option ((#) c) (decode_utf8 rest)"
      using one by (rule decode_one_byte)
    then show ?thesis
      unfolding cb by (simp only: append_Cons append_Nil)
  next
    case two
    then have cb: "cb = [of_nat (0xC0 + c div 64), of_nat (0x80 + c mod 64)]"
      using assms by (simp add: utf8_char_def)
    have b0: "unat (of_nat (0xC0 + c div 64) :: byte) = 0xC0 + c div 64"
      using two by (intro unat_byte ranges)
    have b1: "unat (of_nat (0x80 + c mod 64) :: byte) = 0x80 + c mod 64"
      by (intro unat_byte ranges)
    have r0: "c div 64 < 32"
      using two by (intro ranges)
    have r1: "c mod 64 < 64"
      by simp
    have lo: "0x80 \<le> c div 64 * 64 + c mod 64"
      using two by (simp only: split2)
    have "decode_utf8 (of_nat (0xC0 + c div 64) # of_nat (0x80 + c mod 64) # rest) =
        map_option ((#) (c div 64 * 64 + c mod 64)) (decode_utf8 rest)"
      by (rule decode_two_bytes [OF b0 r0 b1 r1 lo])
    then show ?thesis
      unfolding cb by (simp only: append_Cons append_Nil split2)
  next
    case three
    then have cb: "cb = [of_nat (0xE0 + c div 4096), of_nat (0x80 + c div 64 mod 64),
        of_nat (0x80 + c mod 64)]"
      using assms by (auto simp: utf8_char_def)
    have b0: "unat (of_nat (0xE0 + c div 4096) :: byte) = 0xE0 + c div 4096"
      using three by (intro unat_byte ranges)
    have b1: "unat (of_nat (0x80 + c div 64 mod 64) :: byte) = 0x80 + c div 64 mod 64"
      by (intro unat_byte ranges)
    have b2: "unat (of_nat (0x80 + c mod 64) :: byte) = 0x80 + c mod 64"
      by (intro unat_byte ranges)
    have r0: "c div 4096 < 16"
      using three by (intro ranges)
    have r1: "c div 64 mod 64 < 64" and r2: "c mod 64 < 64"
      by simp_all
    have lo: "0x800 \<le> c div 4096 * 4096 + c div 64 mod 64 * 64 + c mod 64"
      using three by (simp only: split3)
    have ns: "c div 4096 * 4096 + c div 64 mod 64 * 64 + c mod 64 < 0xD800
        \<or> 0xDFFF < c div 4096 * 4096 + c div 64 mod 64 * 64 + c mod 64"
      using three by (simp only: split3)
    have "decode_utf8 (of_nat (0xE0 + c div 4096) # of_nat (0x80 + c div 64 mod 64) #
                       of_nat (0x80 + c mod 64) # rest) =
        map_option ((#) (c div 4096 * 4096 + c div 64 mod 64 * 64 + c mod 64))
          (decode_utf8 rest)"
      by (rule decode_three_bytes [OF b0 r0 b1 r1 b2 r2 lo ns])
    then show ?thesis
      unfolding cb by (simp only: append_Cons append_Nil split3)
  next
    case four
    then have cb: "cb = [of_nat (0xF0 + c div 262144), of_nat (0x80 + c div 4096 mod 64),
        of_nat (0x80 + c div 64 mod 64), of_nat (0x80 + c mod 64)]"
      using assms by (simp add: utf8_char_def)
    have b0: "unat (of_nat (0xF0 + c div 262144) :: byte) = 0xF0 + c div 262144"
      using four by (intro unat_byte ranges)
    have b1: "unat (of_nat (0x80 + c div 4096 mod 64) :: byte) = 0x80 + c div 4096 mod 64"
      by (intro unat_byte ranges)
    have b2: "unat (of_nat (0x80 + c div 64 mod 64) :: byte) = 0x80 + c div 64 mod 64"
      by (intro unat_byte ranges)
    have b3: "unat (of_nat (0x80 + c mod 64) :: byte) = 0x80 + c mod 64"
      by (intro unat_byte ranges)
    have r0: "c div 262144 < 8"
      using four by (intro ranges)
    have r1: "c div 4096 mod 64 < 64" and r2: "c div 64 mod 64 < 64" and r3: "c mod 64 < 64"
      by simp_all
    have lo: "0x10000 \<le> c div 262144 * 262144 + c div 4096 mod 64 * 4096
                + c div 64 mod 64 * 64 + c mod 64"
      using four by (simp only: split4)
    have hi: "c div 262144 * 262144 + c div 4096 mod 64 * 4096
                + c div 64 mod 64 * 64 + c mod 64 < 0x110000"
      using four by (simp only: split4)
    have "decode_utf8 (of_nat (0xF0 + c div 262144) # of_nat (0x80 + c div 4096 mod 64) #
                       of_nat (0x80 + c div 64 mod 64) # of_nat (0x80 + c mod 64) # rest) =
        map_option ((#) (c div 262144 * 262144 + c div 4096 mod 64 * 4096
                          + c div 64 mod 64 * 64 + c mod 64))
          (decode_utf8 rest)"
      by (rule decode_four_bytes [OF b0 r0 b1 r1 b2 r2 b3 r3 lo hi])
    then show ?thesis
      unfolding cb by (simp only: append_Cons append_Nil split4)
  next
    case none
    then have "utf8_char c = None"
      by (auto simp: utf8_char_def)
    then show ?thesis
      using assms by simp
  qed
qed

lemma encode_utf8_decodes:
  "encode_utf8 name = Inr bs \<Longrightarrow> decode_utf8 bs = Some name"
proof (induction name arbitrary: bs)
  case Nil
  then show ?case by simp
next
  case (Cons c cs)
  from Cons.prems obtain cb rest where c: "utf8_char c = Some cb"
    and r: "encode_utf8 cs = Inr rest" and bs: "bs = cb @ rest"
    by (auto split: option.splits sum.splits)
  have "decode_utf8 rest = Some cs"
    using r by (rule Cons.IH)
  then show ?case
    by (simp only: bs decode_utf8_char [OF c] option.map)
qed

lemma utf8_char_scalar:
  assumes "scalar_value c"
  shows "\<exists>cb. utf8_char c = Some cb"
proof -
  have hi: "c < 0x110000" and ns: "\<not> (0xD800 \<le> c \<and> c \<le> 0xDFFF)"
    using assms by (auto simp: scalar_value_def)
  show ?thesis
  proof (cases "c < 0x80")
    case True
    then show ?thesis by (simp add: utf8_char_def)
  next
    case a: False
    show ?thesis
    proof (cases "c < 0x800")
      case True
      then show ?thesis using a by (simp add: utf8_char_def)
    next
      case b: False
      show ?thesis
      proof (cases "c < 0x10000")
        case True
        then show ?thesis using a b ns by (simp add: utf8_char_def)
      next
        case False
        then show ?thesis using a b ns hi by (simp add: utf8_char_def)
      qed
    qed
  qed
qed

lemma encode_utf8_scalar:
  "\<forall>c \<in> set name. scalar_value c \<Longrightarrow> \<exists>bs. encode_utf8 name = Inr bs"
proof (induction name)
  case Nil
  show ?case by simp
next
  case (Cons c cs)
  then have "scalar_value c"
    by simp
  then obtain cb where "utf8_char c = Some cb"
    using utf8_char_scalar by blast
  moreover obtain rest where "encode_utf8 cs = Inr rest"
    using Cons by auto
  ultimately show ?case
    by simp
qed

subsection \<open>A convenience call, step by step\<close>

lemma open_library_world: "snd (open_library p w) = log (Load p) w"
  by (simp add: open_library_def split: sum.splits)

lemma no_native_probe: "filter is_native (map Exists ps) = []"
  by (induction ps) simp_all

lemma load_library_world:
  "\<exists>es. snd (load_library lib_path w) = w\<lparr>trace := trace w @ es\<rparr> \<and> filter is_native es = []"
proof (cases lib_path)
  case (Some p)
  then have "snd (load_library lib_path w) = w\<lparr>trace := trace w @ [Load p]\<rparr>"
    by (simp add: load_library_def open_library_world log_def)
  then show ?thesis
    by (intro exI [of _ "[Load p]"]) simp
next
  case None
  show ?thesis
  proof (cases "lib_name_of (lower (platform_system w))")
    case no_name: None
    then have "snd (load_library lib_path w) = w\<lparr>trace := trace w @ []\<rparr>"
      using None by (simp add: load_library_def)
    then show ?thesis
      by (intro exI [of _ "[]"]) simp
  next
    case (Some lib_name)
    let ?ps = "possible_paths w lib_name"
    let ?probed = "take (Suc (length (takeWhile (\<lambda>p. \<not> os_path_exists w p) ?ps))) ?ps"
    show ?thesis
    proof (cases "find (os_path_exists w) ?ps")
      case nothing: None
      then have "snd (load_library lib_path w) = w\<lparr>trace := trace w @ map Exists ?probed\<rparr>"
        using None Some by (simp add: load_library_def find_path_eq)
      then show ?thesis
        by (intro exI [of _ "map Exists ?probed"]) (simp add: no_native_probe)
    next
      case found: (Some p)
      then have "snd (load_library lib_path w) =
          w\<lparr>trace := trace w @ (map Exists ?probed @ [Load p])\<rparr>"
        using None Some by (simp add: load_library_def find_path_eq open_library_world log_def)
      then show ?thesis
        by (intro exI [of _ "map Exists ?probed @ [Load p]"]) (simp add: no_native_probe)
    qed
  qed
qed

lemma load_library_fields:
  assumes "load_library lib_path w = (r, w0)"
  shows "float_of_int w0 = float_of_int w" and "native w0 = native w"
    and "native_events (trace w0) = native_events (trace w)"
proof -
  obtain es where "snd (load_library lib_path w) = w\<lparr>trace := trace w @ es\<rparr>"
    and "filter is_native es = []"
    using load_library_world by blast
  then have w0: "w0 = w\<lparr>trace := trace w @ es\<rparr>" and es: "filter is_native es = []"
    using assms by simp_all
  show "float_of_int w0 = float_of_int w" and "native w0 = native w"
    by (simp_all add: w0)
  show "native_events (trace w0) = native_events (trace w)"
    by (simp add: w0 native_events_def es)
qed

lemma convenience_run:
  assumes "load_library None w = (Inr l, w0)" and "xdl_init l (native w0) = (p, n)"
    and "p \<noteq> 0" and "c_double w x = Inr d" and "encode_utf8 name = Inr name_bytes"
  defines "run \<equiv>
     (case init None w of
        (Some e, ctx, w') \<Rightarrow> (Inl e, scope_exit ctx w')
      | (None, ctx, w') \<Rightarrow>
          (case call_function ctx name [x] w' of (r, ctx', w'') \<Rightarrow> (r, scope_exit ctx' w'')))"
  shows "fst run = Inr (fst (xdl_call_function l p (name_bytes @ [0]) (Some [d]) 1 n))"
    and "trace (snd run) = trace w0 @ [Init, Call p (name_bytes @ [0]) (Some [d]) 1, Cleanup p]"
proof -
  let ?ctx = "\<lparr>self_lib = Present l, self_context = Present (Some p)\<rparr>"
  let ?w1 = "log Init (w0\<lparr>native := n\<rparr>)"
  let ?r = "xdl_call_function l p (name_bytes @ [0]) (Some [d]) 1 n"
  let ?w2 = "log (Call p (name_bytes @ [0]) (Some [d]) 1) (?w1\<lparr>native := snd ?r\<rparr>)"
  have "init None w = initialize \<lparr>self_lib = Present l, self_context = Present None\<rparr> w0"
    using assms(1) by (rule init_loaded)
  also have "\<dots> = (None, ?ctx, ?w1)"
    using initialize_handle [OF _ assms(2) assms(3),
        of "\<lparr>self_lib = Present l, self_context = Present None\<rparr>"]
    by simp
  finally have i: "init None w = (None, ?ctx, ?w1)" .
  have "float_of_int ?w1 = float_of_int w"
    using load_library_fields(1) [OF assms(1)] by simp
  then have "c_double ?w1 x = c_double w x"
    by (rule c_double_cong)
  then have m: "marshal_args ?w1 [x] = Inr (Some [d], 1)"
    using assms(4) by (simp add: marshal_one)
  have c: "call_function ?ctx name [x] ?w1 = (Inr (fst ?r), ?ctx, ?w2)"
    using call_function_native [OF _ _ m assms(5), of ?ctx l "Some p"]
    by (simp add: c_void_p_param_def c_char_p_param_def c_int_param_def)
  have e: "scope_exit ?ctx ?w2 = log (Cleanup p) (?w2\<lparr>native := xdl_cleanup l p (native ?w2)\<rparr>)"
    using del_with_handle [of ?ctx l p ?w2] by (simp add: scope_exit_def)
  have r: "run = (Inr (fst ?r), log (Cleanup p) (?w2\<lparr>native := xdl_cleanup l p (native ?w2)\<rparr>))"
    unfolding run_def by (simp only: i c e prod.case option.case)
  show "fst run = Inr (fst ?r)"
    by (simp add: r)
  show "trace (snd run) = trace w0 @ [Init, Call p (name_bytes @ [0]) (Some [d]) 1, Cleanup p]"
    by (simp add: r)
qed

subsection \<open>Library resolution\<close>

text \<open>
  C4. With no explicit path, an operating-system identifier whose lower-cased form is none
  of \<open>darwin\<close>, \<open>linux\<close>, \<open>windows\<close> makes \<open>_load_library\<close> raise the
  unsupported-platform error (a \<open>RuntimeError\<close> with the message
  \<open>Unsupported platform: ...\<close>), and the world is returned as it was: no candidate
  path was probed and no load was attempted. The constructor raises the same error and
  leaves an instance without attributes.
\<close>

theorem unsupported_platform_no_path_attempted:
  assumes "lower (platform_system w) \<notin> {''darwin'', ''linux'', ''windows''}"
  shows "load_library None w =
           (Inl (RuntimeError (Unsupported_platform (lower (platform_system w)))), w)
         \<and> init None w =
           (Some (RuntimeError (Unsupported_platform (lower (platform_system w)))),
            \<lparr>self_lib = Absent, self_context = Absent\<rparr>, w)"
proof -
  have "lib_name_of (lower (platform_system w)) = None"
    using assms by (simp add: lib_name_of_def)
  then have "load_library None w =
      (Inl (RuntimeError (Unsupported_platform (lower (platform_system w)))), w)"
    by (simp add: load_library_def)
  then show ?thesis
    by (simp add: init_def)
qed

text \<open>The theorem at the FreeBSD world.\<close>

theorem unsupported_platform_witness:
  "lower (platform_system bsd_world) \<notin> {''darwin'', ''linux'', ''windows''}
   \<and> load_library None bsd_world = (Inl (RuntimeError (Unsupported_platform ''freebsd'')), bsd_world)
   \<and> trace bsd_world = []"
proof -
  have sys: "lower (platform_system bsd_world) = ''freebsd''"
    by (simp add: bsd_world_def stub_world_def lower_FreeBSD)
  have h: "lower (platform_system bsd_world) \<notin> {''darwin'', ''linux'', ''windows''}"
    by (simp add: sys)
  have "trace bsd_world = []"
    by (simp add: bsd_world_def stub_world_def)
  then show ?thesis
    using h unsupported_platform_no_path_attempted [OF h] by (simp add: sys)
qed




subsection \<open>Construction\<close>

text \<open>
  C6. Whenever the library has been loaded and its \<open>xdl_init\<close> returns NULL, the
  constructor raises \<open>XdlError\<close> with the message \<open>Failed to initialize XDL context\<close>
  (the module's init error), after exactly one invocation of \<open>xdl_init\<close>. The instance
  it leaves behind has \<open>_context\<close> set to \<open>None\<close>: it references no handle. The state is
  terminal: neither \<open>__del__\<close> nor \<open>call_function\<close> changes the instance.
\<close>

theorem init_null_raises_XdlError:
  assumes "load_library lib_path w = (Inr l, w')"
    and "fst (xdl_init l (native w')) = 0"
  shows "init lib_path w =
           (Some (XdlError ''Failed to initialize XDL context''),
            \<lparr>self_lib = Present l, self_context = Present None\<rparr>,
            log Init (w'\<lparr>native := snd (xdl_init l (native w'))\<rparr>))
         \<and> (\<forall>w2. fst (snd (del \<lparr>self_lib = Present l, self_context = Present None\<rparr> w2)) =
                 \<lparr>self_lib = Present l, self_context = Present None\<rparr>)
         \<and> (\<forall>name args w2.
               fst (snd (call_function \<lparr>self_lib = Present l, self_context = Present None\<rparr>
                           name args w2)) =
                 \<lparr>self_lib = Present l, self_context = Present None\<rparr>)"
proof -
  have "init lib_path w = initialize \<lparr>self_lib = Present l, self_context = Present None\<rparr> w'"
    using assms(1) by (rule init_loaded)
  also have "\<dots> = (Some (XdlError ''Failed to initialize XDL context''),
            \<lparr>self_lib = Present l, self_context = Present None\<rparr>,
            log Init (w'\<lparr>native := snd (xdl_init l (native w'))\<rparr>))"
    using assms(2) by (simp add: initialize_null)
  finally show ?thesis
    by (simp add: del_keeps_self call_function_keeps_self)
qed

text \<open>The theorem in the world whose library fails to initialise.\<close>

theorem init_null_raises_XdlError_witness:
  "fst (xdl_init null_lib 0) = 0
   \<and> fst (init None null_world) = Some (XdlError ''Failed to initialize XDL context'')
   \<and> self_context (fst (snd (init None null_world))) = Present None
   \<and> trace (snd (snd (init None null_world))) =
       [Exists ''/xdl/py/../../../target/debug/libxdl_ffi.so'',
        Exists ''/xdl/py/../../../target/release/libxdl_ffi.so'',
        Load ''/xdl/py/../../../target/release/libxdl_ffi.so'',
        Init]"
  using init_null_raises_XdlError [OF null_load null_init_zero]
  by (simp add: null_init_zero)

text \<open>
  C7. After a construction in which \<open>xdl_init\<close> returned NULL, the instance holds
  \<open>None\<close> in \<open>_context\<close>, and \<open>__del__\<close> on it, called explicitly or by the
  interpreter, returns the world as it was: \<open>xdl_cleanup\<close> is not invoked. The
  construction itself invoked no cleanup either.
\<close>

theorem failed_context_del_is_noop:
  assumes "load_library lib_path w = (Inr l, w')"
    and "fst (xdl_init l (native w')) = 0"
  shows "self_context (fst (snd (init lib_path w))) = Present None
         \<and> (\<forall>w2. del (fst (snd (init lib_path w))) w2 = (None, fst (snd (init lib_path w)), w2))
         \<and> (\<forall>w2. scope_exit (fst (snd (init lib_path w))) w2 = w2)
         \<and> filter is_cleanup (trace (snd (snd (init lib_path w)))) = filter is_cleanup (trace w')"
proof -
  have "init lib_path w = initialize \<lparr>self_lib = Present l, self_context = Present None\<rparr> w'"
    using assms(1) by (rule init_loaded)
  then have run: "init lib_path w = (Some (XdlError ''Failed to initialize XDL context''),
            \<lparr>self_lib = Present l, self_context = Present None\<rparr>,
            log Init (w'\<lparr>native := snd (xdl_init l (native w'))\<rparr>))"
    using assms(2) by (simp add: initialize_null)
  have noop: "del \<lparr>self_lib = Present l, self_context = Present None\<rparr> w2 =
      (None, \<lparr>self_lib = Present l, self_context = Present None\<rparr>, w2)" for w2 :: "'a world"
    by (simp add: del_without_handle)
  show ?thesis
    by (simp add: run noop scope_exit_def)
qed

text \<open>The theorem in the world whose library fails to initialise.\<close>

theorem failed_context_del_is_noop_witness:
  "fst (xdl_init null_lib 0) = 0
   \<and> self_context (fst (snd (init None null_world))) = Present None
   \<and> del (fst (snd (init None null_world))) (snd (snd (init None null_world))) =
       (None, fst (snd (init None null_world)), snd (snd (init None null_world)))
   \<and> filter is_cleanup (trace (snd (snd (init None null_world)))) = []"
  using failed_context_del_is_noop [OF null_load null_init_zero]
  by (simp add: null_init_zero)

subsection \<open>Calling a function\<close>

text \<open>
  C10. \<open>call_function\<close> returns the instance it was given: \<open>_context\<close> and \<open>lib\<close> are
  the same after the call as before, for every function name, argument list, world and
  native result, and whether the call returns or raises. This holds for every instance,
  an active one in particular.
\<close>

theorem call_function_leaves_context:
  "fst (snd (call_function self name args w)) = self
   \<and> self_context (fst (snd (call_function self name args w))) = self_context self
   \<and> self_lib (fst (snd (call_function self name args w))) = self_lib self"
  by (simp add: call_function_def Let_def split: sum.splits prod.splits attribute.splits)


text \<open>
  C8. Whenever the arguments and the name can be marshalled and the instance has its two
  attributes, \<open>call_function\<close> returns exactly the double that this one invocation of
  \<open>xdl_call_function\<close> returned, whatever its bit pattern, and the trace grows by exactly
  one call event: the native entry is invoked once and not again.
\<close>

theorem call_function_result_verbatim:
  assumes "self_lib self = Present l" and "self_context self = Present h"
    and "marshal_args w args = Inr (c_args, nargs)" and "encode_utf8 name = Inr name_bytes"
  shows "fst (call_function self name args w) =
           Inr (fst (xdl_call_function l (c_void_p_param h) (c_char_p_param name_bytes) c_args
                       (c_int_param nargs) (native w)))
         \<and> trace (snd (snd (call_function self name args w))) =
             trace w @ [Call (c_void_p_param h) (c_char_p_param name_bytes) c_args
                          (c_int_param nargs)]
         \<and> native (snd (snd (call_function self name args w))) =
             snd (xdl_call_function l (c_void_p_param h) (c_char_p_param name_bytes) c_args
                    (c_int_param nargs) (native w))
         \<and> length (filter is_call (trace (snd (snd (call_function self name args w))))) =
             Suc (length (filter is_call (trace w)))"
  by (simp add: call_function_native [OF assms])

text \<open>The theorem at a call of \<open>sin\<close> with a NaN argument in the stub world.\<close>

theorem call_function_result_verbatim_witness:
  "marshal_args stub_world [PyFloat 0x7FF8000000000000] = Inr (Some [0x7FF8000000000000], 1)
   \<and> encode_utf8 (str ''sin'') = Inr [115, 105, 110]
   \<and> fst (call_function stub_ctx (str ''sin'') [PyFloat 0x7FF8000000000000] stub_world) =
       Inr 0x3FF0000000000000
   \<and> trace (snd (snd (call_function stub_ctx (str ''sin'') [PyFloat 0x7FF8000000000000]
                         stub_world))) =
       [Call 4096 [115, 105, 110, 0] (Some [0x7FF8000000000000]) 1]
   \<and> native (snd (snd (call_function stub_ctx (str ''sin'') [PyFloat 0x7FF8000000000000]
                          stub_world))) = 1"
proof -
  have m: "marshal_args stub_world [PyFloat 0x7FF8000000000000] =
      Inr (Some [0x7FF8000000000000], 1)"
    by (simp add: marshal_one c_double_def)
  show ?thesis
    using call_function_result_verbatim [OF stub_ctx_fields(1) stub_ctx_fields(2) m encode_sin]
    by (simp add: m encode_sin stub_lib_fields stub_trace stub_native c_void_p_param_def
        c_char_p_param_def c_int_param_def)
qed

text \<open>
  C3. What \<open>xdl_call_function\<close> is applied to. For a name without a lone surrogate the
  encoding succeeds, its bytes decode as UTF-8 (RFC 3629) to the name, and the native
  entry receives those bytes followed by a zero byte. With no arguments it is applied to
  a NULL array pointer and the count 0, not to an empty array. With arguments that ctypes
  can store as doubles (floats, ints, objects with \<open>__float__\<close> or \<open>__index__\<close>) it is
  applied to one array holding their doubles in the order given, as many as there are
  arguments, and to the number of arguments as a C int (which is that number as long as it
  is below \<open>2^31\<close>); float arguments are passed as they are. In each case the value
  returned and the native state afterwards are those of that one application.
\<close>

theorem call_function_marshals:
  assumes "self_lib self = Present l" and "self_context self = Present h"
    and "\<forall>c \<in> set name. scalar_value c"
  shows "\<exists>name_bytes.
           encode_utf8 name = Inr name_bytes
           \<and> decode_utf8 name_bytes = Some name
           \<and> (args = [] \<longrightarrow>
                call_function self name args w =
                  (Inr (fst (xdl_call_function l (c_void_p_param h) (name_bytes @ [0]) None 0
                              (native w))),
                   self,
                   log (Call (c_void_p_param h) (name_bytes @ [0]) None 0)
                     (w\<lparr>native := snd (xdl_call_function l (c_void_p_param h)
                                          (name_bytes @ [0]) None 0 (native w))\<rparr>)))
           \<and> (\<forall>ds. args \<noteq> [] \<longrightarrow> c_double_array w args = Inr ds \<longrightarrow>
                 call_function self name args w =
                   (Inr (fst (xdl_call_function l (c_void_p_param h) (name_bytes @ [0]) (Some ds)
                               (of_nat (length args)) (native w))),
                    self,
                    log (Call (c_void_p_param h) (name_bytes @ [0]) (Some ds)
                           (of_nat (length args)))
                      (w\<lparr>native := snd (xdl_call_function l (c_void_p_param h)
                                           (name_bytes @ [0]) (Some ds) (of_nat (length args))
                                           (native w))\<rparr>))
                 \<and> length ds = length args
                 \<and> (\<forall>i < length args. c_double w (args ! i) = Inr (ds ! i))
                 \<and> (length args < 2 ^ 31 \<longrightarrow>
                      sint (of_nat (length args) :: 32 word) = int (length args)))
           \<and> (\<forall>ds. ds \<noteq> [] \<longrightarrow> args = map PyFloat ds \<longrightarrow>
                 call_function self name args w =
                   (Inr (fst (xdl_call_function l (c_void_p_param h) (name_bytes @ [0]) (Some ds)
                               (of_nat (length ds)) (native w))),
                    self,
                    log (Call (c_void_p_param h) (name_bytes @ [0]) (Some ds)
                           (of_nat (length ds)))
                      (w\<lparr>native := snd (xdl_call_function l (c_void_p_param h)
                                           (name_bytes @ [0]) (Some ds) (of_nat (length ds))
                                           (native w))\<rparr>)))"
proof -
  obtain name_bytes where enc: "encode_utf8 name = Inr name_bytes"
    using encode_utf8_scalar [OF assms(3)] by blast
  have dec: "decode_utf8 name_bytes = Some name"
    using enc by (rule encode_utf8_decodes)
  have none: "call_function self name args w =
      (Inr (fst (xdl_call_function l (c_void_p_param h) (name_bytes @ [0]) None 0 (native w))),
       self,
       log (Call (c_void_p_param h) (name_bytes @ [0]) None 0)
         (w\<lparr>native := snd (xdl_call_function l (c_void_p_param h)
                              (name_bytes @ [0]) None 0 (native w))\<rparr>))"
    if "args = []"
  proof -
    have "marshal_args w args = Inr (None, 0)"
      using that by (simp add: marshal_args_def)
    from call_function_native [OF assms(1,2) this enc] show ?thesis
      by (simp add: c_char_p_param_def c_int_param_def)
  qed
  have some: "call_function self name args w =
      (Inr (fst (xdl_call_function l (c_void_p_param h) (name_bytes @ [0]) (Some ds)
                  (of_nat (length args)) (native w))),
       self,
       log (Call (c_void_p_param h) (name_bytes @ [0]) (Some ds) (of_nat (length args)))
         (w\<lparr>native := snd (xdl_call_function l (c_void_p_param h)
                              (name_bytes @ [0]) (Some ds) (of_nat (length args))
                              (native w))\<rparr>))"
    if "args \<noteq> []" and "c_double_array w args = Inr ds" for ds
  proof -
    have "marshal_args w args = Inr (Some ds, length args)"
      using that by (simp add: marshal_args_def)
    from call_function_native [OF assms(1,2) this enc] show ?thesis
      by (simp add: c_char_p_param_def c_int_param_def)
  qed
  have floats: "call_function self name args w =
      (Inr (fst (xdl_call_function l (c_void_p_param h) (name_bytes @ [0]) (Some ds)
                  (of_nat (length ds)) (native w))),
       self,
       log (Call (c_void_p_param h) (name_bytes @ [0]) (Some ds) (of_nat (length ds)))
         (w\<lparr>native := snd (xdl_call_function l (c_void_p_param h)
                              (name_bytes @ [0]) (Some ds) (of_nat (length ds))
                              (native w))\<rparr>))"
    if "ds \<noteq> []" and "args = map PyFloat ds" for ds
  proof -
    have "args \<noteq> []" and "c_double_array w args = Inr ds" and "length args = length ds"
      using that by (simp_all add: c_double_array_floats)
    then show ?thesis
      using some [of ds] by simp
  qed
  have len: "length ds = length args" if "c_double_array w args = Inr ds" for ds
    using that by (rule c_double_array_length)
  have nth: "c_double w (args ! i) = Inr (ds ! i)"
    if "c_double_array w args = Inr ds" and "i < length args" for ds i
    using that by (rule c_double_array_nth)
  have cnt: "sint (of_nat (length args) :: 32 word) = int (length args)"
    if "length args < 2 ^ 31"
    using that by (rule c_int_small)
  show ?thesis
    using enc dec none some floats len nth cnt by blast
qed

text \<open>
  The theorem at the name \<open>s\<close>, U+00E9, U+20AC, U+1F600 (one to four bytes each), with no
  argument and with a float, an int and an object whose \<open>__float__\<close> gives 0.5.
\<close>

theorem call_function_marshals_witness:
  "self_lib stub_ctx = Present stub_lib
   \<and> self_context stub_ctx = Present (Some 4096)
   \<and> scalar_value 0x73 \<and> scalar_value 0xE9 \<and> scalar_value 0x20AC \<and> scalar_value 0x1F600
   \<and> encode_utf8 [0x73, 0xE9, 0x20AC, 0x1F600] =
       Inr [0x73, 0xC3, 0xA9, 0xE2, 0x82, 0xAC, 0xF0, 0x9F, 0x98, 0x80]
   \<and> decode_utf8 [0x73, 0xC3, 0xA9, 0xE2, 0x82, 0xAC, 0xF0, 0x9F, 0x98, 0x80] =
       Some [0x73, 0xE9, 0x20AC, 0x1F600]
   \<and> fst (call_function stub_ctx [0x73, 0xE9, 0x20AC, 0x1F600] [] stub_world) =
       Inr 0x3FF0000000000000
   \<and> native (snd (snd (call_function stub_ctx [0x73, 0xE9, 0x20AC, 0x1F600] [] stub_world))) = 1
   \<and> trace (snd (snd (call_function stub_ctx [0x73, 0xE9, 0x20AC, 0x1F600] [] stub_world))) =
       [Call 4096 [0x73, 0xC3, 0xA9, 0xE2, 0x82, 0xAC, 0xF0, 0x9F, 0x98, 0x80, 0] None 0]
   \<and> c_double_array stub_world
         [PyFloat 0x3FF8000000000000, PyInt 16, PyHasFloat (Inr 0x3FE0000000000000)] =
       Inr [0x3FF8000000000000, 0x4030000000000000, 0x3FE0000000000000]
   \<and> fst (call_function stub_ctx [0x73, 0xE9, 0x20AC, 0x1F600]
            [PyFloat 0x3FF8000000000000, PyInt 16, PyHasFloat (Inr 0x3FE0000000000000)]
            stub_world) = Inr 0x3FF0000000000000
   \<and> native (snd (snd (call_function stub_ctx [0x73, 0xE9, 0x20AC, 0x1F600]
            [PyFloat 0x3FF8000000000000, PyInt 16, PyHasFloat (Inr 0x3FE0000000000000)]
            stub_world))) = 1
   \<and> trace (snd (snd (call_function stub_ctx [0x73, 0xE9, 0x20AC, 0x1F600]
            [PyFloat 0x3FF8000000000000, PyInt 16, PyHasFloat (Inr 0x3FE0000000000000)]
            stub_world))) =
       [Call 4096 [0x73, 0xC3, 0xA9, 0xE2, 0x82, 0xAC, 0xF0, 0x9F, 0x98, 0x80, 0]
          (Some [0x3FF8000000000000, 0x4030000000000000, 0x3FE0000000000000]) 3]
   \<and> sint (3 :: 32 word) = 3"
proof -
  let ?name = "[0x73, 0xE9, 0x20AC, 0x1F600] :: pystr"
  let ?bytes = "[0x73, 0xC3, 0xA9, 0xE2, 0x82, 0xAC, 0xF0, 0x9F, 0x98, 0x80] :: byte list"
  let ?args = "[PyFloat 0x3FF8000000000000, PyInt 16, PyHasFloat (Inr 0x3FE0000000000000)]"
  let ?ds = "[0x3FF8000000000000, 0x4030000000000000, 0x3FE0000000000000] :: double list"
  have sv: "scalar_value 0x73" "scalar_value 0xE9" "scalar_value 0x20AC" "scalar_value 0x1F600"
    by (simp_all add: scalar_value_def)
  then have all: "\<forall>c \<in> set ?name. scalar_value c"
    by simp
  have enc: "encode_utf8 ?name = Inr ?bytes"
    by (simp add: utf8_char_def)
  have arr: "c_double_array stub_world ?args = Inr ?ds"
    by (simp add: c_double_def stub_float_of_int)
  obtain nb where nb: "encode_utf8 ?name = Inr nb" and dec: "decode_utf8 nb = Some ?name"
    and empty: "call_function stub_ctx ?name [] stub_world =
        (Inr (fst (xdl_call_function stub_lib (c_void_p_param (Some 4096)) (nb @ [0]) None 0
                     (native stub_world))),
         stub_ctx,
         log (Call (c_void_p_param (Some 4096)) (nb @ [0]) None 0)
           (stub_world\<lparr>native := snd (xdl_call_function stub_lib (c_void_p_param (Some 4096))
                                        (nb @ [0]) None 0 (native stub_world))\<rparr>))"
    using call_function_marshals [OF stub_ctx_fields(1) stub_ctx_fields(2) all,
        of "[]" stub_world]
    by blast
  obtain nb' where nb': "encode_utf8 ?name = Inr nb'"
    and three: "call_function stub_ctx ?name ?args stub_world =
        (Inr (fst (xdl_call_function stub_lib (c_void_p_param (Some 4096)) (nb' @ [0]) (Some ?ds)
                     (of_nat (length ?args)) (native stub_world))),
         stub_ctx,
         log (Call (c_void_p_param (Some 4096)) (nb' @ [0]) (Some ?ds) (of_nat (length ?args)))
           (stub_world\<lparr>native := snd (xdl_call_function stub_lib (c_void_p_param (Some 4096))
                                        (nb' @ [0]) (Some ?ds) (of_nat (length ?args))
                                        (native stub_world))\<rparr>))"
    using call_function_marshals [OF stub_ctx_fields(1) stub_ctx_fields(2) all,
        of ?args stub_world] arr
    by blast
  have eq: "nb = ?bytes" "nb' = ?bytes"
    using nb nb' enc by simp_all
  have dec': "decode_utf8 ?bytes = Some ?name"
    using dec by (simp only: eq)
  have empty': "fst (call_function stub_ctx ?name [] stub_world) = Inr 0x3FF0000000000000"
    "native (snd (snd (call_function stub_ctx ?name [] stub_world))) = 1"
    "trace (snd (snd (call_function stub_ctx ?name [] stub_world))) =
       [Call 4096 (?bytes @ [0]) None 0]"
    by (simp_all add: empty eq stub_lib_fields stub_native stub_trace c_void_p_param_def)
  have three': "fst (call_function stub_ctx ?name ?args stub_world) = Inr 0x3FF0000000000000"
    "native (snd (snd (call_function stub_ctx ?name ?args stub_world))) = 1"
    "trace (snd (snd (call_function stub_ctx ?name ?args stub_world))) =
       [Call 4096 (?bytes @ [0]) (Some ?ds) 3]"
    by (simp_all add: three eq stub_lib_fields stub_native stub_trace c_void_p_param_def)
  show ?thesis
    using sv enc dec' empty' three' arr by (simp add: stub_ctx_fields)
qed

subsection \<open>Lifecycle\<close>

text \<open>
  C1 as stated does not hold: in the stub world, a call through an instance whose
  \<open>__del__\<close> has run returns the native result and reaches \<open>xdl_call_function\<close> with
  the handle that was passed to \<open>xdl_cleanup\<close>; a call through the instance of a failed
  construction returns the native result and reaches \<open>xdl_call_function\<close> with NULL.
\<close>

theorem call_after_destroy_counterexample:
  "fst active_run = None
   \<and> fst destroyed_run = None
   \<and> fst call_after_destroy = Inr 0x3FF0000000000000
   \<and> trace (snd (snd call_after_destroy)) =
       [Exists ''/xdl/py/../../../target/debug/libxdl_ffi.so'',
        Exists ''/xdl/py/../../../target/release/libxdl_ffi.so'',
        Load ''/xdl/py/../../../target/release/libxdl_ffi.so'',
        Init, Cleanup 4096, Call 4096 [115, 105, 110, 0] (Some [0]) 1]
   \<and> fst failed_run = Some (XdlError ''Failed to initialize XDL context'')
   \<and> fst call_after_failure = Inr 0x3FF0000000000000
   \<and> trace (snd (snd call_after_failure)) =
       [Exists ''/xdl/py/../../../target/debug/libxdl_ffi.so'',
        Exists ''/xdl/py/../../../target/release/libxdl_ffi.so'',
        Load ''/xdl/py/../../../target/release/libxdl_ffi.so'',
        Init, Call 0 [115, 105, 110, 0] (Some [0]) 1]"
  by (simp add: active_run_eq destroyed_run_eq failed_run_eq call_after_destroy_eq
      call_after_failure_eq)

text \<open>
  C1, amended. \<open>call_function\<close> makes no check of the instance's lifecycle. Through an
  instance holding a handle, after \<open>__del__\<close> has run, it invokes \<open>xdl_call_function\<close>
  once with that same handle and returns its result. Through an instance whose
  \<open>_context\<close> is \<open>None\<close> it invokes \<open>xdl_call_function\<close> once with NULL and returns its
  result.
\<close>

theorem call_function_checks_no_state:
  assumes "self_lib self = Present l"
    and "marshal_args w args = Inr (c_args, nargs)" and "encode_utf8 name = Inr name_bytes"
  shows "(\<forall>p. self_context self = Present (Some p) \<longrightarrow>
            fst (call_function (fst (snd (del self w))) name args (snd (snd (del self w)))) =
              Inr (fst (xdl_call_function l p (name_bytes @ [0]) c_args (c_int_param nargs)
                          (xdl_cleanup l p (native w))))
            \<and> trace (snd (snd (call_function (fst (snd (del self w))) name args
                                  (snd (snd (del self w)))))) =
                trace w @ [Cleanup p, Call p (name_bytes @ [0]) c_args (c_int_param nargs)])
         \<and> (self_context self = Present None \<longrightarrow>
              fst (call_function self name args w) =
                Inr (fst (xdl_call_function l 0 (name_bytes @ [0]) c_args (c_int_param nargs)
                            (native w)))
              \<and> trace (snd (snd (call_function self name args w))) =
                  trace w @ [Call 0 (name_bytes @ [0]) c_args (c_int_param nargs)])"
proof (intro conjI allI impI)
  fix p
  assume h: "self_context self = Present (Some p)"
  let ?w = "log (Cleanup p) (w\<lparr>native := xdl_cleanup l p (native w)\<rparr>)"
  have d: "del self w = (None, self, ?w)"
    using assms(1) h by (rule del_with_handle)
  have "float_of_int ?w = float_of_int w"
    by simp
  then have "marshal_args ?w args = marshal_args w args"
    by (rule marshal_args_cong)
  then have m: "marshal_args ?w args = Inr (c_args, nargs)"
    using assms(2) by simp
  note run = call_function_native [OF assms(1) h m assms(3)]
  show "fst (call_function (fst (snd (del self w))) name args (snd (snd (del self w)))) =
      Inr (fst (xdl_call_function l p (name_bytes @ [0]) c_args (c_int_param nargs)
                  (xdl_cleanup l p (native w))))"
    by (simp add: d run c_void_p_param_def c_char_p_param_def)
  show "trace (snd (snd (call_function (fst (snd (del self w))) name args
                           (snd (snd (del self w)))))) =
      trace w @ [Cleanup p, Call p (name_bytes @ [0]) c_args (c_int_param nargs)]"
    by (simp add: d run c_void_p_param_def c_char_p_param_def)
next
  assume h: "self_context self = Present None"
  note run = call_function_native [OF assms(1) h assms(2) assms(3)]
  show "fst (call_function self name args w) =
      Inr (fst (xdl_call_function l 0 (name_bytes @ [0]) c_args (c_int_param nargs) (native w)))"
    by (simp add: run c_void_p_param_def c_char_p_param_def)
  show "trace (snd (snd (call_function self name args w))) =
      trace w @ [Call 0 (name_bytes @ [0]) c_args (c_int_param nargs)]"
    by (simp add: run c_void_p_param_def c_char_p_param_def)
qed

text \<open>The theorem at the stub instance and at the instance of the failed construction.\<close>

theorem call_function_checks_no_state_witness:
  "self_lib stub_ctx = Present stub_lib
   \<and> self_context stub_ctx = Present (Some 4096)
   \<and> marshal_args stub_world [PyFloat 0] = Inr (Some [0], 1)
   \<and> encode_utf8 (str ''sin'') = Inr [115, 105, 110]
   \<and> fst (call_function (fst (snd (del stub_ctx stub_world))) (str ''sin'') [PyFloat 0]
            (snd (snd (del stub_ctx stub_world)))) = Inr 0x3FF0000000000000
   \<and> trace (snd (snd (call_function (fst (snd (del stub_ctx stub_world))) (str ''sin'')
                         [PyFloat 0] (snd (snd (del stub_ctx stub_world)))))) =
       [Cleanup 4096, Call 4096 [115, 105, 110, 0] (Some [0]) 1]
   \<and> self_lib null_ctx = Present null_lib
   \<and> self_context null_ctx = Present None
   \<and> fst (call_function null_ctx (str ''sin'') [PyFloat 0] null_world) = Inr 0x3FF0000000000000
   \<and> trace (snd (snd (call_function null_ctx (str ''sin'') [PyFloat 0] null_world))) =
       [Call 0 [115, 105, 110, 0] (Some [0]) 1]"
  using call_function_checks_no_state [OF stub_ctx_fields(1) marshal_zero encode_sin,
      of stub_world]
    call_function_checks_no_state [OF stub_ctx_fields(3) marshal_zero encode_sin,
      of null_world]
  by (simp add: stub_ctx_fields marshal_zero encode_sin stub_lib_fields stub_trace
      c_int_param_def)

text \<open>
  C2 as stated does not hold: in the stub world, after a successful construction, two
  invocations of \<open>__del__\<close> invoke \<open>xdl_cleanup\<close> twice with the same handle, and the
  handle is still stored after the first.
\<close>

theorem destroy_twice_counterexample:
  "fst active_run = None
   \<and> self_context (fst (snd active_run)) = Present (Some 4096)
   \<and> self_context (fst (snd destroyed_run)) = Present (Some 4096)
   \<and> trace (snd (snd destroyed_twice_run)) =
       [Exists ''/xdl/py/../../../target/debug/libxdl_ffi.so'',
        Exists ''/xdl/py/../../../target/release/libxdl_ffi.so'',
        Load ''/xdl/py/../../../target/release/libxdl_ffi.so'',
        Init, Cleanup 4096, Cleanup 4096]"
  by (simp add: destroyed_twice_run_def active_run_eq destroyed_run_eq stub_ctx_fields
      del_with_handle [OF stub_ctx_fields(1) stub_ctx_fields(2)] stub_lib_fields log_def)

text \<open>
  C2, amended. On an instance holding a handle, \<open>__del__\<close> invokes \<open>xdl_cleanup\<close> once
  with the held handle and leaves the instance as it was, the handle included. So \<open>k\<close>
  invocations of \<open>__del__\<close> invoke \<open>xdl_cleanup\<close> \<open>k\<close> times with that handle.
\<close>

theorem del_cleans_up_on_every_call:
  assumes "self_lib self = Present l" and "self_context self = Present (Some p)"
  shows "del self w = (None, self, log (Cleanup p) (w\<lparr>native := xdl_cleanup l p (native w)\<rparr>))
         \<and> fst (del_times k self w) = self
         \<and> trace (snd (del_times k self w)) = trace w @ replicate k (Cleanup p)"
  using del_with_handle [OF assms] del_times_with_handle [OF assms] by simp

text \<open>The theorem at three invocations on the stub instance.\<close>

theorem del_cleans_up_on_every_call_witness:
  "self_lib stub_ctx = Present stub_lib
   \<and> self_context stub_ctx = Present (Some 4096)
   \<and> fst (del stub_ctx stub_world) = None
   \<and> fst (del_times 3 stub_ctx stub_world) = stub_ctx
   \<and> trace (snd (del_times 3 stub_ctx stub_world)) = [Cleanup 4096, Cleanup 4096, Cleanup 4096]"
proof -
  have r: "replicate 3 (Cleanup 4096) = [Cleanup 4096, Cleanup 4096, Cleanup 4096]"
    by (simp add: numeral_3_eq_3)
  show ?thesis
    using del_cleans_up_on_every_call [OF stub_ctx_fields(1) stub_ctx_fields(2), of stub_world 3]
    by (simp add: stub_ctx_fields stub_trace r)
qed


subsection \<open>Convenience functions\<close>

text \<open>
  C9. Whenever the library can be loaded, its \<open>xdl_init\<close> returns a handle and \<open>x\<close>
  converts to a double, each of \<open>sin\<close>, \<open>cos\<close> and \<open>sqrt\<close> runs the constructor
  (one \<open>xdl_init\<close>, after the load), makes exactly one call of \<open>xdl_call_function\<close>
  with the handle just obtained, its own name and the one argument \<open>x\<close>, returns that
  call's result, and the instance is then cleaned up. This holds from every world, so a
  second convenience call initialises a context of its own: none is reused.
\<close>

theorem convenience_functions_fresh_context:
  assumes "load_library None w = (Inr l, w0)" and "xdl_init l (native w0) = (p, n)"
    and "p \<noteq> 0" and "c_double w x = Inr d"
  shows "fst (xdl_sin x w) = Inr (fst (xdl_call_function l p [115, 105, 110, 0] (Some [d]) 1 n))
         \<and> trace (snd (xdl_sin x w)) =
             trace w0 @ [Init, Call p [115, 105, 110, 0] (Some [d]) 1, Cleanup p]
         \<and> native_events (trace (snd (xdl_sin x w))) =
             native_events (trace w) @ [Init, Call p [115, 105, 110, 0] (Some [d]) 1, Cleanup p]
         \<and> fst (xdl_cos x w) = Inr (fst (xdl_call_function l p [99, 111, 115, 0] (Some [d]) 1 n))
         \<and> trace (snd (xdl_cos x w)) =
             trace w0 @ [Init, Call p [99, 111, 115, 0] (Some [d]) 1, Cleanup p]
         \<and> native_events (trace (snd (xdl_cos x w))) =
             native_events (trace w) @ [Init, Call p [99, 111, 115, 0] (Some [d]) 1, Cleanup p]
         \<and> fst (xdl_sqrt x w) =
             Inr (fst (xdl_call_function l p [115, 113, 114, 116, 0] (Some [d]) 1 n))
         \<and> trace (snd (xdl_sqrt x w)) =
             trace w0 @ [Init, Call p [115, 113, 114, 116, 0] (Some [d]) 1, Cleanup p]
         \<and> native_events (trace (snd (xdl_sqrt x w))) =
             native_events (trace w) @
               [Init, Call p [115, 113, 114, 116, 0] (Some [d]) 1, Cleanup p]"
proof -
  have ne: "native_events (trace w0 @ es) = native_events (trace w) @ native_events es" for es
    using load_library_fields(3) [OF assms(1)] by (simp add: native_events_def)
  have nat3: "native_events [Init, Call p nb (Some [d]) 1, Cleanup p] =
      [Init, Call p nb (Some [d]) 1, Cleanup p]" for nb
    by (simp add: native_events_def)
  note sin = convenience_run [OF assms encode_sin, folded xdl_sin_def]
  note cos = convenience_run [OF assms encode_cos, folded xdl_cos_def]
  note sqrt = convenience_run [OF assms encode_sqrt, folded xdl_sqrt_def]
  show ?thesis
    using sin cos sqrt by (simp add: ne nat3)
qed

text \<open>The theorem at the argument 16 in the stub world.\<close>

theorem convenience_functions_fresh_context_witness:
  "fst (load_library None stub_world) = Inr stub_lib
   \<and> xdl_init stub_lib 0 = (4096, 0)
   \<and> c_double stub_world (PyInt 16) = Inr 0x4030000000000000
   \<and> fst (xdl_sin (PyInt 16) stub_world) = Inr 0x3FF0000000000000
   \<and> native_events (trace (snd (xdl_sin (PyInt 16) stub_world))) =
       [Init, Call 4096 [115, 105, 110, 0] (Some [0x4030000000000000]) 1, Cleanup 4096]
   \<and> native_events (trace (snd (xdl_cos (PyInt 16) stub_world))) =
       [Init, Call 4096 [99, 111, 115, 0] (Some [0x4030000000000000]) 1, Cleanup 4096]
   \<and> trace (snd (xdl_sqrt (PyInt 16) stub_world)) =
       [Exists ''/xdl/py/../../../target/debug/libxdl_ffi.so'',
        Exists ''/xdl/py/../../../target/release/libxdl_ffi.so'',
        Load ''/xdl/py/../../../target/release/libxdl_ffi.so'',
        Init, Call 4096 [115, 113, 114, 116, 0] (Some [0x4030000000000000]) 1, Cleanup 4096]"
proof -
  let ?w0 = "stub_world\<lparr>trace :=
        [Exists ''/xdl/py/../../../target/debug/libxdl_ffi.so'',
         Exists ''/xdl/py/../../../target/release/libxdl_ffi.so'',
         Load ''/xdl/py/../../../target/release/libxdl_ffi.so'']\<rparr>"
  have i: "xdl_init stub_lib (native ?w0) = (4096, 0)"
    by (simp add: stub_lib_def stub_native)
  have i0: "xdl_init stub_lib 0 = (4096, 0)"
    by (simp add: stub_lib_def)
  have nz: "(4096 :: nat) \<noteq> 0"
    by simp
  have d: "c_double stub_world (PyInt 16) = Inr 0x4030000000000000"
    by (simp add: c_double_def stub_float_of_int)
  have ne: "native_events (trace stub_world) = []"
    by (simp add: stub_trace native_events_def)
  show ?thesis
    using convenience_functions_fresh_context [OF stub_load i nz d]
    by (simp add: stub_load i0 d ne stub_lib_fields native_events_def)
qed

end
